theory Spec2Isabelle
  imports Complex_Main "HOL-Library.Log_Nat"
begin

section \<open>Third-octave filter bank: data model\<close>

text \<open>
  The C++ source works on \<open>float\<close> and \<open>double\<close> values. They are modelled as
  \<^typ>\<open>real\<close>. In the filters and the accumulators every arithmetic operation is the
  exact one and the conversions between \<open>float\<close> and \<open>double\<close> are the identity.
  The sample threshold is different: its \<open>float\<close> value is cast to an integer, so
  the rounding of each single-precision operation decides the result, and it is written
  out (\<open>float32\<close> below). The \<open>int\<close> fields are \<^typ>\<open>int\<close>, with signed
  overflow written out as an error where the source increments them; the \<open>uint64_t\<close>
  threshold is a \<^typ>\<open>nat\<close>.

  Fixed-size arrays are functions from the index; the source indexes the 31-element
  arrays only with loop counters below \<open>NUM_BANDS\<close>. The \<open>sections\<close> array of a
  band is declared with two elements and indexed by values that come from data, so every
  access to it is checked against that capacity.
\<close>

definition NUM_BANDS :: nat where
  "NUM_BANDS = 31"

text \<open>The declared length of \<open>FilterBand::sections\<close> (\<open>BiquadSection sections[2]\<close>).\<close>

definition SECTIONS_CAPACITY :: int where
  "SECTIONS_CAPACITY = 2"

text \<open>The largest value of \<open>int\<close>, taken to be 32 bits wide.\<close>

definition INT_MAX :: int where
  "INT_MAX = 2147483647"

text \<open>\<open>enum ChannelType\<close> of the header.\<close>

definition LEFT_CHANNEL :: int where
  "LEFT_CHANNEL = 0"

definition RIGHT_CHANNEL :: int where
  "RIGHT_CHANNEL = 1"

definition STEREO_CHANNEL :: int where
  "STEREO_CHANNEL = 2"

text \<open>\<open>struct BiquadSection\<close>: \<open>b[3]\<close>, \<open>a[3]\<close> and the delay line \<open>z[2]\<close>.\<close>

record BiquadSection =
  b0 :: real
  b1 :: real
  b2 :: real
  a0 :: real
  a1 :: real
  a2 :: real
  z0 :: real
  z1 :: real

record FilterBand =
  sections :: "nat \<Rightarrow> BiquadSection"
  num_sections :: int
  center_freq :: real

record third_octave_filter =
  bypass :: real
  sample_rate :: real
  filter_order :: int
  initialized :: int
  channelType :: int
  bands :: "nat \<Rightarrow> FilterBand"
  mic_constant :: real
  alpha :: real
  integrationTime :: int
  samplesCount :: int
  temporal_sum :: "nat \<Rightarrow> real"
  volume_level :: "nat \<Rightarrow> real"
  smoothed_level :: "nat \<Rightarrow> real"
  maxNumberOfSamples :: nat

text \<open>
  What is undefined behaviour in the source is an error value of the model: a
  dereference of the null \<open>pFilterBank\<close>, an index outside \<open>sections[2]\<close>, a read
  outside the sample buffer, a signed overflow, and a conversion of a \<open>float\<close> that
  \<open>uint64_t\<close> cannot hold.
\<close>

datatype error =
    NullPointerDereference
  | SectionIndexOutOfBounds int
  | BufferIndexOutOfBounds int
  | SignedIntegerOverflow
  | FloatConversionOutOfRange

text \<open>A loop whose body can fail: the first error ends it.\<close>

fun foldE :: "('a \<Rightarrow> 's \<Rightarrow> error + 's) \<Rightarrow> 'a list \<Rightarrow> 's \<Rightarrow> error + 's" where
  "foldE f [] s = Inr s"
| "foldE f (x # xs) s = (case f x s of Inl e \<Rightarrow> Inl e | Inr s' \<Rightarrow> foldE f xs s')"

section \<open>Biquad section and band cascade\<close>

text \<open>\<open>processBiquad\<close>: the two delay values are written one after the other.\<close>

definition processBiquad :: "BiquadSection \<Rightarrow> real \<Rightarrow> real \<times> BiquadSection" where
  "processBiquad section input =
     (let output = b0 section * input + z0 section;
          section1 = section\<lparr>z0 := b1 section * input - a1 section * output + z1 section\<rparr>;
          section2 = section1\<lparr>z1 := b2 section1 * input - a2 section1 * output\<rparr>
      in (output, section2))"

text \<open>One access to \<open>band->sections[i]\<close>, checked against the declared length.\<close>

definition section_at :: "FilterBand \<Rightarrow> int \<Rightarrow> error + BiquadSection" where
  "section_at band i =
     (if 0 \<le> i \<and> i < SECTIONS_CAPACITY then Inr (sections band (nat i))
      else Inl (SectionIndexOutOfBounds i))"

definition processFilterBand_step :: "nat \<Rightarrow> real \<times> FilterBand \<Rightarrow> error + real \<times> FilterBand" where
  "processFilterBand_step i acc =
     (case section_at (snd acc) (int i) of
        Inl e \<Rightarrow> Inl e
      | Inr section \<Rightarrow>
          (let (output, section') = processBiquad section (fst acc)
           in Inr (output, (snd acc)\<lparr>sections := (sections (snd acc))(i := section')\<rparr>)))"

text \<open>\<open>processFilterBand\<close>: \<open>for (int i = 0; i < band->num_sections; i++)\<close>.\<close>

definition processFilterBand :: "FilterBand \<Rightarrow> real \<Rightarrow> error + real \<times> FilterBand" where
  "processFilterBand band input =
     foldE processFilterBand_step [0..<nat (num_sections band)] (input, band)"

section \<open>Coefficient installation\<close>

text \<open>
  \<open>initializeFilterBank\<close> is a list of assignments, one block per band: the block
  of band \<open>k\<close> assigns \<open>bands[k].center_freq\<close>, then \<open>bands[k].num_sections\<close>,
  then for each section \<open>j = 0, 1, ...\<close> in turn \<open>sections[j].b[0..2]\<close>,
  \<open>sections[j].a[0..2]\<close> and \<open>sections[j].z[0] = sections[j].z[1] = 0.0\<close>. The
  two tables below hold, band by band, the assigned centre frequency, the assigned
  section count and the rows \<open>(b[0], b[1], b[2], a[0], a[1], a[2])\<close> in the order of
  the source; a decimal constant \<open>d.ddddddddddeX\<close> of the source is written as a
  fraction with the same digits.
\<close>

type_synonym sos_row = "real \<times> real \<times> real \<times> real \<times> real \<times> real"

type_synonym band_init = "real \<times> int \<times> sos_row list"

text \<open>The branch \<open>filter_order == 2\<close>.\<close>

definition coefficients_order2 :: "band_init list" where
  "coefficients_order2 = [
   (20, 2,
    [(91839749966 / 10 ^ 18, 18367949993 / 10 ^ 17, 91839749966 / 10 ^ 18, 1, - (19995282685 / 10 ^ 10), 99953634283 / 10 ^ 11),
     (1, - 2, 1, 1, - (19996006861 / 10 ^ 10), 99960650149 / 10 ^ 11)]),
   (25, 2,
    [(14348423658 / 10 ^ 17, 28696847317 / 10 ^ 17, 14348423658 / 10 ^ 17, 1, - (19994078468 / 10 ^ 10), 99942046219 / 10 ^ 11),
     (1, - 2, 1, 1, - (19994990648 / 10 ^ 10), 99950815101 / 10 ^ 11)]),
   (315 / 10 ^ 1, 2,
    [(22776385304 / 10 ^ 17, 45552770607 / 10 ^ 17, 22776385304 / 10 ^ 17, 1, - (19992498108 / 10 ^ 10), 99926983749 / 10 ^ 11),
     (1, - 2, 1, 1, - (19993658855 / 10 ^ 10), 99938030979 / 10 ^ 11)]),
   (40, 2,
    [(36720162518 / 10 ^ 17, 73440325036 / 10 ^ 17, 36720162518 / 10 ^ 17, 1, - (19990406114 / 10 ^ 10), 99907290111 / 10 ^ 11),
     (1, - 2, 1, 1, - (19991899002 / 10 ^ 10), 99921315736 / 10 ^ 11)]),
   (50, 2,
    [(57362965624 / 10 ^ 17, 11472593125 / 10 ^ 16, 57362965624 / 10 ^ 17, 1, - (19987908144 / 10 ^ 10), 99884126116 / 10 ^ 11),
     (1, - 2, 1, 1, - (19989802073 / 10 ^ 10), 99901654301 / 10 ^ 11)]),
   (63, 2,
    [(91044093041 / 10 ^ 17, 18208818608 / 10 ^ 16, 91044093041 / 10 ^ 17, 1, - (19984601330 / 10 ^ 10), 99854020996 / 10 ^ 11),
     (1, - 2, 1, 1, - (19987033227 / 10 ^ 10), 99876100175 / 10 ^ 11)]),
   (80, 2,
    [(14675488516 / 10 ^ 16, 29350977032 / 10 ^ 16, 14675488516 / 10 ^ 16, 1, - (19980175675 / 10 ^ 10), 99814666549 / 10 ^ 11),
     (1, - 2, 1, 1, - (19983339386 / 10 ^ 10), 99842693007 / 10 ^ 11)]),
   (100, 2,
    [(22920635944 / 10 ^ 16, 45841271889 / 10 ^ 16, 22920635944 / 10 ^ 16, 1, - (19974822047 / 10 ^ 10), 99768387234 / 10 ^ 11),
     (1, - 2, 1, 1, - (19978887759 / 10 ^ 10), 99803404586 / 10 ^ 11)]),
   (125, 2,
    [(35794339408 / 10 ^ 16, 71588678816 / 10 ^ 16, 35794339408 / 10 ^ 16, 1, - (19967906744 / 10 ^ 10), 99710568599 / 10 ^ 11),
     (1, - 2, 1, 1, - (19973162276 / 10 ^ 10), 99754315463 / 10 ^ 11)]),
   (160, 2,
    [(58601557463 / 10 ^ 16, 11720311493 / 10 ^ 15, 58601557463 / 10 ^ 16, 1, - (19957808984 / 10 ^ 10), 99629679590 / 10 ^ 11),
     (1, - 2, 1, 1, - (19964846396 / 10 ^ 10), 99685630460 / 10 ^ 11)]),
   (200, 2,
    [(91486666575 / 10 ^ 16, 18297333315 / 10 ^ 15, 91486666575 / 10 ^ 16, 1, - (19945674699 / 10 ^ 10), 99537316779 / 10 ^ 11),
     (1, - 2, 1, 1, - (19954914094 / 10 ^ 10), 99607189798 / 10 ^ 11)]),
   (250, 2,
    [(14279529675 / 10 ^ 15, 28559059350 / 10 ^ 15, 14279529675 / 10 ^ 15, 1, - (19929617346 / 10 ^ 10), 99421986348 / 10 ^ 11),
     (1, - 2, 1, 1, - (19941856867 / 10 ^ 10), 99509223080 / 10 ^ 11)]),
   (315, 2,
    [(22638747004 / 10 ^ 15, 45277494009 / 10 ^ 15, 22638747004 / 10 ^ 15, 1, - (19907268354 / 10 ^ 10), 99272262119 / 10 ^ 11),
     (1, - 2, 1, 1, - (19923817986 / 10 ^ 10), 99382004797 / 10 ^ 11)]),
   (400, 2,
    [(36438801475 / 10 ^ 15, 72877602950 / 10 ^ 15, 36438801475 / 10 ^ 15, 1, - (19875534886 / 10 ^ 10), 99076821039 / 10 ^ 11),
     (1, - 2, 1, 1, - (19898416841 / 10 ^ 10), 99215875807 / 10 ^ 11)]),
   (500, 2,
    [(56814507890 / 10 ^ 15, 11362901578 / 10 ^ 14, 56814507890 / 10 ^ 15, 1, - (19834575730 / 10 ^ 10), 98847404755 / 10 ^ 11),
     (1, - 2, 1, 1, - (19865911375 / 10 ^ 10), 99020763562 / 10 ^ 11)]),
   (630, 2,
    [(89949759973 / 10 ^ 15, 17989951995 / 10 ^ 14, 89949759973 / 10 ^ 15, 1, - (19775496894 / 10 ^ 10), 98550001917 / 10 ^ 11),
     (1, - 2, 1, 1, - (19819432110 / 10 ^ 10), 98767646726 / 10 ^ 11)]),
   (800, 2,
    [(14452155018 / 10 ^ 14, 28904310037 / 10 ^ 14, 14452155018 / 10 ^ 14, 1, - (19688355849 / 10 ^ 10), 98162535328 / 10 ^ 11),
     (1, - 2, 1, 1, - (19751484285 / 10 ^ 10), 98437528452 / 10 ^ 11)]),
   (1000, 2,
    [(22486138577 / 10 ^ 14, 44972277155 / 10 ^ 14, 22486138577 / 10 ^ 14, 1, - (19571616553 / 10 ^ 10), 97708815318 / 10 ^ 11),
     (1, - 2, 1, 1, - (19661212031 / 10 ^ 10), 98050392671 / 10 ^ 11)]),
   (1250, 2,
    [(34949840016 / 10 ^ 14, 69899680031 / 10 ^ 14, 34949840016 / 10 ^ 14, 1, - (19404316792 / 10 ^ 10), 97144942329 / 10 ^ 11),
     (1, - 2, 1, 1, - (19532794096 / 10 ^ 10), 97568282934 / 10 ^ 11)]),
   (1600, 2,
    [(56842540279 / 10 ^ 14, 11368508056 / 10 ^ 13, 56842540279 / 10 ^ 14, 1, - (19130826710 / 10 ^ 10), 96361754164 / 10 ^ 11),
     (1, - 2, 1, 1, - (19324274349 / 10 ^ 10), 96896533897 / 10 ^ 11)]),
   (2000, 2,
    [(88077669909 / 10 ^ 14, 17615533982 / 10 ^ 13, 88077669909 / 10 ^ 14, 1, - (18763388948 / 10 ^ 10), 95475792455 / 10 ^ 11),
     (1, - 2, 1, 1, - (19045584369 / 10 ^ 10), 96133091745 / 10 ^ 11)]),
   (2500, 2,
    [(13620124551 / 10 ^ 13, 27240249103 / 10 ^ 13, 13620124551 / 10 ^ 13, 1, - (18224286352 / 10 ^ 10), 94382382636 / 10 ^ 11),
     (1, - 2, 1, 1, - (18638026219 / 10 ^ 10), 95184627152 / 10 ^ 11)]),
   (3150, 2,
    [(21336121687 / 10 ^ 13, 42672243374 / 10 ^ 13, 21336121687 / 10 ^ 13, 1, - (17396600701 / 10 ^ 10), 92985039510 / 10 ^ 11),
     (1, - 2, 1, 1, - (18013022953 / 10 ^ 10), 93960162339 / 10 ^ 11)]),
   (4000, 2,
    [(33814676189 / 10 ^ 13, 67629352377 / 10 ^ 13, 33814676189 / 10 ^ 13, 1, - (16111845677 / 10 ^ 10), 91200507593 / 10 ^ 11),
     (1, - 2, 1, 1, - (17041154148 / 10 ^ 10), 92370966205 / 10 ^ 11)]),
   (5000, 2,
    [(51786052377 / 10 ^ 13, 10357210475 / 10 ^ 12, 51786052377 / 10 ^ 13, 1, - (14334898271 / 10 ^ 10), 89166200446 / 10 ^ 11),
     (1, - 2, 1, 1, - (15689457900 / 10 ^ 10), 90514133105 / 10 ^ 11)]),
   (6300, 2,
    [(80135241686 / 10 ^ 13, 16027048337 / 10 ^ 12, 80135241686 / 10 ^ 13, 1, - (11659539968 / 10 ^ 10), 86633608642 / 10 ^ 11),
     (1, - 2, 1, 1, - (13632319368 / 10 ^ 10), 88111168516 / 10 ^ 11)]),
   (8000, 2,
    [(12505435661 / 10 ^ 12, 25010871322 / 10 ^ 12, 12505435661 / 10 ^ 12, 1, - (76892892667 / 10 ^ 11), 83529708847 / 10 ^ 11),
     (1, - 2, 1, 1, - (10520645541 / 10 ^ 10), 84964354776 / 10 ^ 11)]),
   (10000, 2,
    [(18821791870 / 10 ^ 12, 37643583740 / 10 ^ 12, 18821791870 / 10 ^ 12, 1, - (26268885378 / 10 ^ 11), 80220300414 / 10 ^ 11),
     (1, - 2, 1, 1, - (64302702672 / 10 ^ 11), 81205737082 / 10 ^ 11)]),
   (12500, 2,
    [(28110768870 / 10 ^ 12, - (56221537740 / 10 ^ 12), 28110768870 / 10 ^ 12, 1, - (10383271516 / 10 ^ 11), 76289180572 / 10 ^ 11),
     (1, 2, 1, 1, 37366504960 / 10 ^ 11, 76727247890 / 10 ^ 11)]),
   (16000, 2,
    [(43369979301 / 10 ^ 12, - (86739958603 / 10 ^ 12), 43369979301 / 10 ^ 12, 1, 60774354142 / 10 ^ 11, 68364720419 / 10 ^ 11),
     (1, 2, 1, 1, 11492032881 / 10 ^ 10, 73744978539 / 10 ^ 11)]),
   (20000, 2,
    [(63852757781 / 10 ^ 12, - (12770551556 / 10 ^ 11), 63852757781 / 10 ^ 12, 1, 11475077614 / 10 ^ 10, 52760390543 / 10 ^ 11),
     (1, 2, 1, 1, 17589790538 / 10 ^ 10, 80671714926 / 10 ^ 11)])]"

text \<open>The branch \<open>else\<close> (\<open>filter_order == 4\<close>).\<close>

definition coefficients_order4 :: "band_init list" where
  "coefficients_order4 = [
   (20, 4,
    [(84350901384 / 10 ^ 25, 16870180277 / 10 ^ 24, 84350901384 / 10 ^ 25, 1, - (19994076617 / 10 ^ 10), 99941515210 / 10 ^ 11),
     (1, 2, 1, 1, - (19994587246 / 10 ^ 10), 99946499258 / 10 ^ 11),
     (1, - 2, 1, 1, - (19997348532 / 10 ^ 10), 99974333928 / 10 ^ 11),
     (1, - 2, 1, 1, - (19997871914 / 10 ^ 10), 99979272575 / 10 ^ 11)]),
   (25, 4,
    [(20589405689 / 10 ^ 24, 41178811379 / 10 ^ 24, 20589405689 / 10 ^ 24, 1, - (19992572907 / 10 ^ 10), 99926899360 / 10 ^ 11),
     (1, 2, 1, 1, - (19993214924 / 10 ^ 10), 99933128540 / 10 ^ 11),
     (1, - 2, 1, 1, - (19996659254 / 10 ^ 10), 99967918444 / 10 ^ 11),
     (1, - 2, 1, 1, - (19997322667 / 10 ^ 10), 99974091387 / 10 ^ 11)]),
   (315 / 10 ^ 1, 4,
    [(51881705198 / 10 ^ 24, 10376341040 / 10 ^ 23, 51881705198 / 10 ^ 24, 1, - (19990604418 / 10 ^ 10), 99907901952 / 10 ^ 11),
     (1, 2, 1, 1, - (19991419467 / 10 ^ 10), 99915749275 / 10 ^ 11),
     (1, - 2, 1, 1, - (19995747402 / 10 ^ 10), 99959578936 / 10 ^ 11),
     (1, - 2, 1, 1, - (19996598346 / 10 ^ 10), 99967356241 / 10 ^ 11)]),
   (40, 4,
    [(13485463392 / 10 ^ 23, 26970926783 / 10 ^ 23, 13485463392 / 10 ^ 23, 1, - (19988006937 / 10 ^ 10), 99883064642 / 10 ^ 11),
     (1, 2, 1, 1, - (19989052058 / 10 ^ 10), 99893027092 / 10 ^ 11),
     (1, - 2, 1, 1, - (19994528050 / 10 ^ 10), 99948674484 / 10 ^ 11),
     (1, - 2, 1, 1, - (19995633591 / 10 ^ 10), 99958549419 / 10 ^ 11)]),
   (50, 4,
    [(32910467246 / 10 ^ 23, 65820934491 / 10 ^ 23, 32910467246 / 10 ^ 23, 1, - (19984917277 / 10 ^ 10), 99853852191 / 10 ^ 11),
     (1, 2, 1, 1, - (19986238581 / 10 ^ 10), 99866301706 / 10 ^ 11),
     (1, - 2, 1, 1, - (19993054451 / 10 ^ 10), 99935847260 / 10 ^ 11),
     (1, - 2, 1, 1, - (19994473101 / 10 ^ 10), 99948189432 / 10 ^ 11)]),
   (63, 4,
    [(82907310466 / 10 ^ 23, 16581462093 / 10 ^ 22, 82907310466 / 10 ^ 23, 1, - (19980846117 / 10 ^ 10), 99815888794 / 10 ^ 11),
     (1, 2, 1, 1, - (19982535356 / 10 ^ 10), 99831569349 / 10 ^ 11),
     (1, - 2, 1, 1, - (19991075645 / 10 ^ 10), 99919174367 / 10 ^ 11),
     (1, - 2, 1, 1, - (19992923281 / 10 ^ 10), 99934723027 / 10 ^ 11)]),
   (80, 4,
    [(21542619151 / 10 ^ 22, 43085238301 / 10 ^ 22, 21542619151 / 10 ^ 22, 1, - (19975429216 / 10 ^ 10), 99766266166 / 10 ^ 11),
     (1, 2, 1, 1, - (19977614761 / 10 ^ 10), 99786168242 / 10 ^ 11),
     (1, - 2, 1, 1, - (19988380330 / 10 ^ 10), 99897375634 / 10 ^ 11),
     (1, - 2, 1, 1, - (19990826364 / 10 ^ 10), 99917115793 / 10 ^ 11)]),
   (100, 4,
    [(52552700572 / 10 ^ 22, 10510540114 / 10 ^ 21, 52552700572 / 10 ^ 22, 1, - (19968921444 / 10 ^ 10), 99707918252 / 10 ^ 11),
     (1, 2, 1, 1, - (19971712845 / 10 ^ 10), 99732781434 / 10 ^ 11),
     (1, - 2, 1, 1, - (19985053239 / 10 ^ 10), 99871736304 / 10 ^ 11),
     (1, - 2, 1, 1, - (19988257526 / 10 ^ 10), 99896405266 / 10 ^ 11)]),
   (125, 4,
    [(12817574288 / 10 ^ 21, 25635148576 / 10 ^ 21, 12817574288 / 10 ^ 21, 1, - (19960581768 / 10 ^ 10), 99635031472 / 10 ^ 11),
     (1, 2, 1, 1, - (19964163830 / 10 ^ 10), 99666087754 / 10 ^ 11),
     (1, - 2, 1, 1, - (19980657121 / 10 ^ 10), 99839696684 / 10 ^ 11),
     (1, - 2, 1, 1, - (19984891650 / 10 ^ 10), 99870522942 / 10 ^ 11)]),
   (160, 4,
    [(34359359096 / 10 ^ 21, 68718718193 / 10 ^ 21, 34359359096 / 10 ^ 21, 1, - (19948524105 / 10 ^ 10), 99533079781 / 10 ^ 11),
     (1, 2, 1, 1, - (19953275197 / 10 ^ 10), 99572790736 / 10 ^ 11),
     (1, - 2, 1, 1, - (19974059951 / 10 ^ 10), 99794859161 / 10 ^ 11),
     (1, - 2, 1, 1, - (19979890530 / 10 ^ 10), 99834298478 / 10 ^ 11)]),
   (200, 4,
    [(83752740615 / 10 ^ 21, 16750548123 / 10 ^ 20, 83752740615 / 10 ^ 21, 1, - (19934198903 / 10 ^ 10), 99416691834 / 10 ^ 11),
     (1, 2, 1, 1, - (19940374504 / 10 ^ 10), 99466271093 / 10 ^ 11),
     (1, - 2, 1, 1, - (19965888532 / 10 ^ 10), 99743642153 / 10 ^ 11),
     (1, - 2, 1, 1, - (19973762485 / 10 ^ 10), 99792914324 / 10 ^ 11)]),
   (250, 4,
    [(20407136844 / 10 ^ 20, 40814273687 / 10 ^ 20, 20407136844 / 10 ^ 20, 1, - (19915476509 / 10 ^ 10), 99271399279 / 10 ^ 11),
     (1, 2, 1, 1, - (19923565002 / 10 ^ 10), 99333279104 / 10 ^ 11),
     (1, - 2, 1, 1, - (19954727525 / 10 ^ 10), 99679660155 / 10 ^ 11),
     (1, - 2, 1, 1, - (19965484142 / 10 ^ 10), 99741206641 / 10 ^ 11)]),
   (315, 4,
    [(51303990177 / 10 ^ 20, 10260798035 / 10 ^ 19, 51303990177 / 10 ^ 20, 1, - (19889785537 / 10 ^ 10), 99082838460 / 10 ^ 11),
     (1, 2, 1, 1, - (19900579517 / 10 ^ 10), 99160649777 / 10 ^ 11),
     (1, - 2, 1, 1, - (19938647643 / 10 ^ 10), 99596549699 / 10 ^ 11),
     (1, - 2, 1, 1, - (19953696180 / 10 ^ 10), 99674023348 / 10 ^ 11)]),
   (400, 4,
    [(13295202928 / 10 ^ 19, 26590405856 / 10 ^ 19, 13295202928 / 10 ^ 19, 1, - (19853891471 / 10 ^ 10), 98836803756 / 10 ^ 11),
     (1, 2, 1, 1, - (19868594324 / 10 ^ 10), 98935344429 / 10 ^ 11),
     (1, - 2, 1, 1, - (19914945951 / 10 ^ 10), 99487981632 / 10 ^ 11),
     (1, - 2, 1, 1, - (19936533056 / 10 ^ 10), 99586229328 / 10 ^ 11)]),
   (500, 4,
    [(32331582922 / 10 ^ 19, 64663165844 / 10 ^ 19, 32331582922 / 10 ^ 19, 1, - (19808342785 / 10 ^ 10), 98548141443 / 10 ^ 11),
     (1, 2, 1, 1, - (19828178524 / 10 ^ 10), 98670912937 / 10 ^ 11),
     (1, - 2, 1, 1, - (19883190566 / 10 ^ 10), 99360424779 / 10 ^ 11),
     (1, - 2, 1, 1, - (19913808773 / 10 ^ 10), 99483028062 / 10 ^ 11)]),
   (630, 4,
    [(81076056950 / 10 ^ 19, 16215211390 / 10 ^ 18, 81076056950 / 10 ^ 19, 1, - (19743792869 / 10 ^ 10), 98174157148 / 10 ^ 11),
     (1, 2, 1, 1, - (19771156395 / 10 ^ 10), 98328164323 / 10 ^ 11),
     (1, - 2, 1, 1, - (19835671939 / 10 ^ 10), 99194883501 / 10 ^ 11),
     (1, - 2, 1, 1, - (19880183216 / 10 ^ 10), 99348999484 / 10 ^ 11)]),
   (800, 4,
    [(20941054136 / 10 ^ 18, 41882108272 / 10 ^ 18, 20941054136 / 10 ^ 18, 1, - (19650345671 / 10 ^ 10), 97687277199 / 10 ^ 11),
     (1, 2, 1, 1, - (19688992907 / 10 ^ 10), 97881656097 / 10 ^ 11),
     (1, - 2, 1, 1, - (19762940882 / 10 ^ 10), 98978904502 / 10 ^ 11),
     (1, - 2, 1, 1, - (19829266057 / 10 ^ 10), 99173946151 / 10 ^ 11)]),
   (1000, 4,
    [(50727813667 / 10 ^ 18, 10145562733 / 10 ^ 17, 50727813667 / 10 ^ 18, 1, - (19527423270 / 10 ^ 10), 97117632899 / 10 ^ 11),
     (1, 2, 1, 1, - (19581399076 / 10 ^ 10), 97358775957 / 10 ^ 11),
     (1, - 2, 1, 1, - (19662099097 / 10 ^ 10), 98725563041 / 10 ^ 11),
     (1, - 2, 1, 1, - (19759327057 / 10 ^ 10), 98968290755 / 10 ^ 11)]),
   (1250, 4,
    [(12264796379 / 10 ^ 17, 24529592757 / 10 ^ 17, 12264796379 / 10 ^ 17, 1, - (19354279749 / 10 ^ 10), 96410370396 / 10 ^ 11),
     (1, 2, 1, 1, - (19430468640 / 10 ^ 10), 96708776378 / 10 ^ 11),
     (1, - 2, 1, 1, - (19513014962 / 10 ^ 10), 98410082611 / 10 ^ 11),
     (1, - 2, 1, 1, - (19656730433 / 10 ^ 10), 98711620638 / 10 ^ 11)]),
   (1600, 4,
    [(32479650500 / 10 ^ 17, 64959301000 / 10 ^ 17, 32479650500 / 10 ^ 17, 1, - (19076132574 / 10 ^ 10), 95429138292 / 10 ^ 11),
     (1, 2, 1, 1, - (19188940539 / 10 ^ 10), 95805299174 / 10 ^ 11),
     (1, - 2, 1, 1, - (19261821256 / 10 ^ 10), 97970772245 / 10 ^ 11),
     (1, - 2, 1, 1, - (19485002511 / 10 ^ 10), 98352928341 / 10 ^ 11)]),
   (2000, 4,
    [(78083643709 / 10 ^ 17, 15616728742 / 10 ^ 16, 78083643709 / 10 ^ 17, 1, - (18708395354 / 10 ^ 10), 94320474652 / 10 ^ 11),
     (1, 2, 1, 1, - (18870605258 / 10 ^ 10), 94781723028 / 10 ^ 11),
     (1, - 2, 1, 1, - (18915106784 / 10 ^ 10), 97472306463 / 10 ^ 11),
     (1, - 2, 1, 1, - (19249074526 / 10 ^ 10), 97943740106 / 10 ^ 11)]),
   (2500, 4,
    [(18702246496 / 10 ^ 16, 37404492992 / 10 ^ 16, 18702246496 / 10 ^ 16, 1, - (18176383212 / 10 ^ 10), 92953724538 / 10 ^ 11),
     (1, 2, 1, 1, - (18411002801 / 10 ^ 10), 93515068421 / 10 ^ 11),
     (1, - 2, 1, 1, - (18394492824 / 10 ^ 10), 96855054962 / 10 ^ 11),
     (1, - 2, 1, 1, - (18895659971 / 10 ^ 10), 97433041351 / 10 ^ 11)]),
   (3150, 4,
    [(45991007162 / 10 ^ 16, 91982014324 / 10 ^ 16, 45991007162 / 10 ^ 16, 1, - (17370051632 / 10 ^ 10), 91208572767 / 10 ^ 11),
     (1, 2, 1, 1, - (17715029014 / 10 ^ 10), 91888423312 / 10 ^ 11),
     (1, - 2, 1, 1, - (17578103425 / 10 ^ 10), 96063188158 / 10 ^ 11),
     (1, - 2, 1, 1, - (18341411742 / 10 ^ 10), 96769749730 / 10 ^ 11)]),
   (4000, 4,
    [(11583372579 / 10 ^ 15, 23166745159 / 10 ^ 15, 11583372579 / 10 ^ 15, 1, - (16133028848 / 10 ^ 10), 88980273776 / 10 ^ 11),
     (1, 2, 1, 1, - (16646511710 / 10 ^ 10), 89792644163 / 10 ^ 11),
     (1, - 2, 1, 1, - (16285888068 / 10 ^ 10), 95047616516 / 10 ^ 11),
     (1, - 2, 1, 1, - (17461000097 / 10 ^ 10), 95901872221 / 10 ^ 11)]),
   (5000, 4,
    [(27253846053 / 10 ^ 15, 54507692106 / 10 ^ 15, 27253846053 / 10 ^ 15, 1, - (14438706954 / 10 ^ 10), 86436759582 / 10 ^ 11),
     (1, 2, 1, 1, - (15178801537 / 10 ^ 10), 87367654899 / 10 ^ 11),
     (1, - 2, 1, 1, - (14467940547 / 10 ^ 10), 93885347125 / 10 ^ 11),
     (1, - 2, 1, 1, - (16212340474 / 10 ^ 10), 94877199428 / 10 ^ 11)]),
   (6300, 4,
    [(65526052261 / 10 ^ 15, 13105210452 / 10 ^ 14, 65526052261 / 10 ^ 15, 1, - (11907460788 / 10 ^ 10), 83256622652 / 10 ^ 11),
     (1, 2, 1, 1, - (12973596890 / 10 ^ 10), 84270962842 / 10 ^ 11),
     (1, - 2, 1, 1, - (11689637311 / 10 ^ 10), 92434615335 / 10 ^ 11),
     (1, - 2, 1, 1, - (14275907538 / 10 ^ 10), 93532837875 / 10 ^ 11)]),
   (8000, 4,
    [(16040574966 / 10 ^ 14, 32081149932 / 10 ^ 14, 16040574966 / 10 ^ 14, 1, - (81719051702 / 10 ^ 11), 79316533363 / 10 ^ 11),
     (1, 2, 1, 1, - (96862161371 / 10 ^ 11), 80294634638 / 10 ^ 11),
     (1, - 2, 1, 1, - (75113810411 / 10 ^ 11), 90658661275 / 10 ^ 11),
     (1, - 2, 1, 1, - (11287745450 / 10 ^ 10), 91738009123 / 10 ^ 11)]),
   (10000, 4,
    [(36551901396 / 10 ^ 14, 73103802793 / 10 ^ 14, 36551901396 / 10 ^ 14, 1, - (34184508429 / 10 ^ 11), 75011325492 / 10 ^ 11),
     (1, 2, 1, 1, - (54362466713 / 10 ^ 11), 75678725377 / 10 ^ 11),
     (1, - 2, 1, 1, - (21297356521 / 10 ^ 11), 88786071806 / 10 ^ 11),
     (1, - 2, 1, 1, - (72743584771 / 10 ^ 11), 89536884091 / 10 ^ 11)]),
   (12500, 4,
    [(82108238703 / 10 ^ 14, - (16421647741 / 10 ^ 13), 82108238703 / 10 ^ 14, 1, 53325488961 / 10 ^ 13, 69895765693 / 10 ^ 11),
     (1, 2, 1, 1, 25766083001 / 10 ^ 11, 70190923815 / 10 ^ 11),
     (1, - 2, 1, 1, - (18477308461 / 10 ^ 11), 86549145081 / 10 ^ 11),
     (1, 2, 1, 1, 46663550942 / 10 ^ 11, 86887107446 / 10 ^ 11)]),
   (16000, 4,
    [(19719201682 / 10 ^ 13, - (39438403365 / 10 ^ 13), 19719201682 / 10 ^ 13, 1, 70843611868 / 10 ^ 11, 61282354090 / 10 ^ 11),
     (1, - 2, 1, 1, 99892865902 / 10 ^ 11, 64930453542 / 10 ^ 11),
     (1, 2, 1, 1, 56042306540 / 10 ^ 11, 81439287683 / 10 ^ 11),
     (1, 2, 1, 1, 12866162001 / 10 ^ 10, 85610905393 / 10 ^ 11)]),
   (20000, 4,
    [(42701518998 / 10 ^ 13, - (85403037995 / 10 ^ 13), 42701518998 / 10 ^ 13, 1, 11979947229 / 10 ^ 10, 45134001086 / 10 ^ 11),
     (1, - 2, 1, 1, 16216153437 / 10 ^ 10, 68744181415 / 10 ^ 11),
     (1, 2, 1, 1, 12058440678 / 10 ^ 10, 70929749752 / 10 ^ 11),
     (1, 2, 1, 1, 18635789025 / 10 ^ 10, 90508965329 / 10 ^ 11)])]"

text \<open>The assignments to \<open>band.sections[j]\<close>; the index is checked as in \<open>section_at\<close>.\<close>

definition write_section :: "nat \<times> sos_row \<Rightarrow> FilterBand \<Rightarrow> error + FilterBand" where
  "write_section jrow band =
     (case jrow of (j, c0, c1, c2, d0, d1, d2) \<Rightarrow>
        if 0 \<le> int j \<and> int j < SECTIONS_CAPACITY
        then Inr (band\<lparr>sections := (sections band)
               (j := \<lparr>b0 = c0, b1 = c1, b2 = c2, a0 = d0, a1 = d1, a2 = d2, z0 = 0, z1 = 0\<rparr>)\<rparr>)
        else Inl (SectionIndexOutOfBounds (int j)))"

text \<open>The block of one band: centre frequency, section count, then the sections in order.\<close>

definition initialize_band :: "band_init \<Rightarrow> FilterBand \<Rightarrow> error + FilterBand" where
  "initialize_band entry band =
     (case entry of (cf, ns, rows) \<Rightarrow>
        foldE write_section (enumerate 0 rows) (band\<lparr>center_freq := cf, num_sections := ns\<rparr>))"

text \<open>The block of band \<open>k\<close> on \<open>bands[k]\<close>.\<close>

definition initialize_band_at ::
    "nat \<times> band_init \<Rightarrow> (nat \<Rightarrow> FilterBand) \<Rightarrow> error + (nat \<Rightarrow> FilterBand)" where
  "initialize_band_at kentry bs =
     (case initialize_band (snd kentry) (bs (fst kentry)) of
        Inl e \<Rightarrow> Inl e
      | Inr band' \<Rightarrow> Inr (bs(fst kentry := band')))"

text \<open>\<open>initializeFilterBank\<close>: the blocks of bands 0 to 30 of the chosen branch.\<close>

definition initializeFilterBank ::
    "(nat \<Rightarrow> FilterBand) \<Rightarrow> int \<Rightarrow> error + (nat \<Rightarrow> FilterBand)" where
  "initializeFilterBank bs order =
     foldE initialize_band_at
       (enumerate 0 (if order = 2 then coefficients_order2 else coefficients_order4)) bs"

section \<open>Reset, threshold and level reduction\<close>

text \<open>\<open>resetFilterState\<close>: both delay values of every section below \<open>num_sections\<close>.\<close>

definition reset_section :: "nat \<Rightarrow> FilterBand \<Rightarrow> error + FilterBand" where
  "reset_section j band =
     (case section_at band (int j) of
        Inl e \<Rightarrow> Inl e
      | Inr section \<Rightarrow> Inr (band\<lparr>sections := (sections band)(j := section\<lparr>z0 := 0, z1 := 0\<rparr>)\<rparr>))"

definition reset_band :: "nat \<Rightarrow> third_octave_filter \<Rightarrow> error + third_octave_filter" where
  "reset_band band st =
     (case foldE reset_section [0..<nat (num_sections (bands st band))] (bands st band) of
        Inl e \<Rightarrow> Inl e
      | Inr band' \<Rightarrow> Inr (st\<lparr>bands := (bands st)(band := band')\<rparr>))"

definition resetFilterState :: "third_octave_filter \<Rightarrow> error + third_octave_filter" where
  "resetFilterState st =
     (case foldE reset_band [0..<NUM_BANDS] st of
        Inl e \<Rightarrow> Inl e
      | Inr st' \<Rightarrow> Inr (st'\<lparr>initialized := 1\<rparr>))"

text \<open>
  Single precision (IEEE 754 binary32, round to nearest, ties to even). A value in the
  binade \<open>[2^e, 2^(e+1))\<close> is a multiple of \<open>2^(e-23)\<close>, and a value below
  \<open>2^(-126)\<close> a multiple of \<open>2^(-149)\<close>: \<open>float32_quantum x\<close> is that
  spacing at \<open>x\<close>, read off the bit length of \<open>x\<close> scaled by \<open>2^149\<close>, and
  \<open>float32 x\<close> is the multiple of it nearest to \<open>x\<close>. Where binary32 overflows to
  infinity (from \<open>2^128\<close> on) \<open>float32\<close> stays finite; such a value is far outside
  \<open>uint64_t\<close>, and the cast below fails on it as it does on infinity.
\<close>

definition round_half_even :: "real \<Rightarrow> int" where
  "round_half_even y =
     (let f = \<lfloor>y\<rfloor>
      in if y - of_int f < 1 / 2 then f
         else if 1 / 2 < y - of_int f then f + 1
         else if even f then f else f + 1)"

definition float32_quantum :: "real \<Rightarrow> real" where
  "float32_quantum x = 2 powi (max (- 149) (bitlen \<lfloor>\<bar>x\<bar> * 2 ^ 149\<rfloor> - 173))"

definition float32 :: "real \<Rightarrow> real" where
  "float32 x = of_int (round_half_even (x / float32_quantum x)) * float32_quantum x"

text \<open>
  The conversion \<open>(uint64_t) v\<close> of a floating-point value: the value is truncated
  towards zero, and the behaviour is undefined when the result is not a \<open>uint64_t\<close>.
\<close>

definition float_to_uint64 :: "real \<Rightarrow> error + nat" where
  "float_to_uint64 v =
     (if - 1 < v \<and> v < 2 ^ 64 then Inr (nat (if v < 0 then \<lceil>v\<rceil> else \<lfloor>v\<rfloor>))
      else Inl FloatConversionOutOfRange)"

text \<open>
  The expression \<open>(sample_rate / 1000) * (float) integrationTime\<close>, evaluated in
  \<open>float\<close>: the quotient is rounded, the integer is converted, the product is rounded.
  The constant 1000 is a \<open>float\<close> as it stands.
\<close>

definition window_samples :: "real \<Rightarrow> int \<Rightarrow> real" where
  "window_samples rate ms = float32 (float32 (rate / 1000) * float32 (real_of_int ms))"

definition calculateSamplesIntegration :: "third_octave_filter \<Rightarrow> error + third_octave_filter" where
  "calculateSamplesIntegration st =
     (case float_to_uint64 (window_samples (sample_rate st) (integrationTime st)) of
        Inl e \<Rightarrow> Inl e
      | Inr m \<Rightarrow> Inr (st\<lparr>maxNumberOfSamples := m\<rparr>))"

text \<open>The local \<open>level_db\<close> of \<open>calculateLevel\<close>, from the local \<open>rms\<close>.\<close>

definition rms_of :: "third_octave_filter \<Rightarrow> nat \<Rightarrow> real" where
  "rms_of st band = sqrt (temporal_sum st band / real_of_int (samplesCount st))"

definition level_db_of :: "third_octave_filter \<Rightarrow> nat \<Rightarrow> real" where
  "level_db_of st band = 10 * log 10 (rms_of st band) + mic_constant st"

text \<open>The body of the loop of \<open>calculateLevel\<close> for one value of \<open>band\<close>.\<close>

definition calculateLevel_band :: "nat \<Rightarrow> third_octave_filter \<Rightarrow> third_octave_filter" where
  "calculateLevel_band band st =
     (if samplesCount st > 0 then
        (let rms = rms_of st band;
             level_db = level_db_of st band;
             st1 = (if smoothed_level st band = 0
                    then st\<lparr>smoothed_level := (smoothed_level st)(band := volume_level st band)\<rparr>
                    else st\<lparr>smoothed_level := (smoothed_level st)
                           (band := alpha st * volume_level st band
                                    + (1 - alpha st) * smoothed_level st band)\<rparr>);
             st2 = st1\<lparr>volume_level := (volume_level st1)(band := smoothed_level st1 band)\<rparr>;
             st3 = st2\<lparr>temporal_sum := (temporal_sum st2)(band := 0)\<rparr>
         in st3\<lparr>samplesCount := 0\<rparr>)
      else st)"

definition calculateLevel :: "third_octave_filter \<Rightarrow> third_octave_filter" where
  "calculateLevel st = (fold calculateLevel_band [0..<NUM_BANDS] st)\<lparr>samplesCount := 0\<rparr>"

section \<open>Allocation and release\<close>

text \<open>The loop of \<open>third_octave_filter_alloc\<close> that zeroes the three per-band arrays.\<close>

definition zero_band_levels :: "nat \<Rightarrow> third_octave_filter \<Rightarrow> third_octave_filter" where
  "zero_band_levels i st =
     st\<lparr>temporal_sum := (temporal_sum st)(i := 0),
        volume_level := (volume_level st)(i := 0),
        smoothed_level := (smoothed_level st)(i := 0)\<rparr>"

text \<open>
  \<open>third_octave_filter_alloc\<close>. The global \<open>pFilterBank\<close> is the first argument,
  \<open>None\<close> for the null pointer; the result is its new value. \<open>malloc_result\<close> is
  what \<open>malloc\<close> returns when it is called: \<open>None\<close> for a failed allocation,
  otherwise a block of arbitrary contents. The field \<open>alpha\<close> is assigned nowhere
  (the block comes from \<open>malloc\<close>, which runs no initialiser), so it keeps the value
  the block has.
\<close>

definition third_octave_filter_alloc ::
    "third_octave_filter option \<Rightarrow> third_octave_filter option \<Rightarrow> real \<Rightarrow> int
      \<Rightarrow> error + third_octave_filter option" where
  "third_octave_filter_alloc pFilterBank malloc_result rate order =
     (case (case pFilterBank of None \<Rightarrow> malloc_result | Some st \<Rightarrow> Some st) of
        None \<Rightarrow> Inl NullPointerDereference
      | Some st0 \<Rightarrow>
          (let st1 = st0\<lparr>bypass := 1, sample_rate := rate,
                       filter_order := (if order = 2 \<or> order = 4 then order else 2),
                       initialized := 0, channelType := LEFT_CHANNEL\<rparr>
           in case initializeFilterBank (bands st1) (filter_order st1) of
                Inl e \<Rightarrow> Inl e
              | Inr bs \<Rightarrow>
                  (case resetFilterState (st1\<lparr>bands := bs\<rparr>) of
                     Inl e \<Rightarrow> Inl e
                   | Inr st2 \<Rightarrow>
                       (let st3 = st2\<lparr>mic_constant := 120, integrationTime := 125,
                                    samplesCount := 0\<rparr>;
                            st4 = fold zero_band_levels [0..<NUM_BANDS] st3
                        in case float_to_uint64
                                  (window_samples (sample_rate st4) (integrationTime st4)) of
                             Inl e \<Rightarrow> Inl e
                           | Inr m \<Rightarrow>
                               (case calculateSamplesIntegration (st4\<lparr>maxNumberOfSamples := m\<rparr>) of
                                  Inl e \<Rightarrow> Inl e
                                | Inr st5 \<Rightarrow> Inr (Some st5))))))"

definition third_octave_filter_free :: "third_octave_filter option \<Rightarrow> third_octave_filter option" where
  "third_octave_filter_free pFilterBank =
     (case pFilterBank of None \<Rightarrow> None | Some st \<Rightarrow> None)"


section \<open>Sample processing\<close>

text \<open>A read of \<open>data[i]\<close>; the buffer is the list \<open>data\<close>.\<close>

definition read_sample :: "real list \<Rightarrow> int \<Rightarrow> error + real" where
  "read_sample data i =
     (if 0 \<le> i \<and> i < int (length data) then Inr (data ! nat i)
      else Inl (BufferIndexOutOfBounds i))"

text \<open>
  The body of the band loop of the left and right cases: the band filters the sample
  and the square of its output is added to the band's sum.
\<close>

definition accumulate_band :: "real \<Rightarrow> nat \<Rightarrow> third_octave_filter \<Rightarrow> error + third_octave_filter" where
  "accumulate_band input band st =
     (case processFilterBand (bands st band) input of
        Inl e \<Rightarrow> Inl e
      | Inr (output, band') \<Rightarrow>
          Inr (st\<lparr>bands := (bands st)(band := band'),
                 temporal_sum := (temporal_sum st)(band := temporal_sum st band + output ^ 2)\<rparr>))"

text \<open>The body of the band loop of the stereo case.\<close>

definition accumulate_band_stereo ::
    "real \<Rightarrow> real \<Rightarrow> nat \<Rightarrow> third_octave_filter \<Rightarrow> error + third_octave_filter" where
  "accumulate_band_stereo input_left input_right band st =
     (case processFilterBand (bands st band) input_left of
        Inl e \<Rightarrow> Inl e
      | Inr (output_left, band1) \<Rightarrow>
          (case processFilterBand band1 input_right of
             Inl e \<Rightarrow> Inl e
           | Inr (output_right, band2) \<Rightarrow>
               (let st1 = st\<lparr>bands := (bands st)(band := band2)\<rparr>;
                    st2 = st1\<lparr>temporal_sum := (temporal_sum st1)
                            (band := temporal_sum st1 band + output_left ^ 2)\<rparr>
                in Inr (st2\<lparr>temporal_sum := (temporal_sum st2)
                            (band := temporal_sum st2 band + output_right ^ 2)\<rparr>))))"

text \<open>
  \<open>samplesCount += k\<close> followed by the comparison with \<open>maxNumberOfSamples\<close>, in
  which the \<open>int\<close> is converted to \<open>uint64_t\<close>. The second component of the pair
  counts the calls of \<open>calculateLevel\<close> made so far; it is not part of the program's
  state.
\<close>

definition uint64_of_int :: "int \<Rightarrow> nat" where
  "uint64_of_int c = nat (c mod 2 ^ 64)"

definition advance_count ::
    "int \<Rightarrow> third_octave_filter \<times> nat \<Rightarrow> error + third_octave_filter \<times> nat" where
  "advance_count k acc =
     (if samplesCount (fst acc) + k > INT_MAX then Inl SignedIntegerOverflow
      else (let st = (fst acc)\<lparr>samplesCount := samplesCount (fst acc) + k\<rparr>
            in if uint64_of_int (samplesCount st) \<ge> maxNumberOfSamples st
               then Inr (calculateLevel st, Suc (snd acc))
               else Inr (st, snd acc)))"

text \<open>
  The loops \<open>for (int i = 0; i < buffer_size; i += 2)\<close> of the left case and
  \<open>for (int i = 1; ...)\<close> of the right case have the same body; \<open>i\<close> is their
  counter.
\<close>

function mono_loop ::
    "real list \<Rightarrow> int \<Rightarrow> int \<Rightarrow> third_octave_filter \<times> nat
      \<Rightarrow> error + third_octave_filter \<times> nat" where
  "mono_loop data buffer_size i acc =
     (if i < buffer_size then
        (case read_sample data i of
           Inl e \<Rightarrow> Inl e
         | Inr input \<Rightarrow>
             (case foldE (accumulate_band input) [0..<NUM_BANDS] (fst acc) of
                Inl e \<Rightarrow> Inl e
              | Inr st \<Rightarrow>
                  (case advance_count 1 (st, snd acc) of
                     Inl e \<Rightarrow> Inl e
                   | Inr acc' \<Rightarrow>
                       if i + 2 > INT_MAX then Inl SignedIntegerOverflow
                       else mono_loop data buffer_size (i + 2) acc')))
      else Inr acc)"
  by pat_completeness auto
termination
  by (relation "measure (\<lambda>(data, buffer_size, i, acc). nat (buffer_size - i))") auto

function stereo_loop ::
    "real list \<Rightarrow> int \<Rightarrow> int \<Rightarrow> third_octave_filter \<times> nat
      \<Rightarrow> error + third_octave_filter \<times> nat" where
  "stereo_loop data buffer_size i acc =
     (if i < buffer_size then
        (case read_sample data i of
           Inl e \<Rightarrow> Inl e
         | Inr input_left \<Rightarrow>
             (case read_sample data (i + 1) of
                Inl e \<Rightarrow> Inl e
              | Inr input_right \<Rightarrow>
                  (case foldE (accumulate_band_stereo input_left input_right)
                          [0..<NUM_BANDS] (fst acc) of
                     Inl e \<Rightarrow> Inl e
                   | Inr st \<Rightarrow>
                       (case advance_count 2 (st, snd acc) of
                          Inl e \<Rightarrow> Inl e
                        | Inr acc' \<Rightarrow>
                            if i + 2 > INT_MAX then Inl SignedIntegerOverflow
                            else stereo_loop data buffer_size (i + 2) acc'))))
      else Inr acc)"
  by pat_completeness auto
termination
  by (relation "measure (\<lambda>(data, buffer_size, i, acc). nat (buffer_size - i))") auto

text \<open>
  The body of \<open>third_octave_filter_process\<close> once \<open>pFilterBank\<close> has been
  dereferenced: the new bank, and the number of calls of \<open>calculateLevel\<close>.
\<close>

definition process_bank ::
    "third_octave_filter \<Rightarrow> real list \<Rightarrow> int \<Rightarrow> error + third_octave_filter \<times> nat" where
  "process_bank st data buffer_size =
     (let byPass = (if bypass st = 1 then 1 else 0 :: int)
      in if byPass \<noteq> 0 then Inr (st, 0)
         else if channelType st = LEFT_CHANNEL then mono_loop data buffer_size 0 (st, 0)
         else if channelType st = RIGHT_CHANNEL then mono_loop data buffer_size 1 (st, 0)
         else if channelType st = STEREO_CHANNEL then stereo_loop data buffer_size 0 (st, 0)
         else Inr (st, 0))"

text \<open>
  \<open>third_octave_filter_process\<close> on the whole store: the global \<open>pFilterBank\<close>
  and the caller's buffer go in, and their values after the call come out. The first
  statement reads \<open>pFilterBank->bypass\<close> with no test of the pointer.
\<close>

definition third_octave_filter_process ::
    "third_octave_filter option \<Rightarrow> real list \<Rightarrow> int
      \<Rightarrow> error + third_octave_filter option \<times> real list" where
  "third_octave_filter_process pFilterBank data buffer_size =
     (case pFilterBank of
        None \<Rightarrow> Inl NullPointerDereference
      | Some st \<Rightarrow>
          (case process_bank st data buffer_size of
             Inl e \<Rightarrow> Inl e
           | Inr (st', calls) \<Rightarrow> Inr (Some st', data)))"

text \<open>A block of memory whose bytes are all zero, as an example of what \<open>malloc\<close> may return.\<close>

definition zero_section :: BiquadSection where
  "zero_section = \<lparr>b0 = 0, b1 = 0, b2 = 0, a0 = 0, a1 = 0, a2 = 0, z0 = 0, z1 = 0\<rparr>"

definition zero_band :: FilterBand where
  "zero_band = \<lparr>sections = (\<lambda>j. zero_section), num_sections = 0, center_freq = 0\<rparr>"

definition zero_block :: third_octave_filter where
  "zero_block =
     \<lparr>bypass = 0, sample_rate = 0, filter_order = 0, initialized = 0, channelType = 0,
      bands = (\<lambda>band. zero_band), mic_constant = 0, alpha = 0, integrationTime = 0,
      samplesCount = 0, temporal_sum = (\<lambda>band. 0), volume_level = (\<lambda>band. 0),
      smoothed_level = (\<lambda>band. 0), maxNumberOfSamples = 0\<rparr>"

section \<open>Predicates and scenarios used in the statements\<close>

text \<open>The shapes of a table entry: the assigned count and the number of rows written.\<close>

definition two_rows :: "band_init \<Rightarrow> bool" where
  "two_rows e = (case e of (cf, ns, rows) \<Rightarrow> ns = 2 \<and> length rows = 2)"

definition four_rows :: "band_init \<Rightarrow> bool" where
  "four_rows e = (case e of (cf, ns, rows) \<Rightarrow> ns = 4 \<and> length rows = 4)"

text \<open>Every band's loop bound \<open>num_sections\<close> stays within the declared array.\<close>

definition sections_fit :: "third_octave_filter \<Rightarrow> bool" where
  "sections_fit st = (\<forall>k. k < NUM_BANDS \<longrightarrow> num_sections (bands st k) \<le> 2)"

text \<open>The published and the smoothed level of every band are zero.\<close>

definition levels_zero :: "third_octave_filter \<Rightarrow> bool" where
  "levels_zero st =
     (\<forall>band. band < NUM_BANDS \<longrightarrow> volume_level st band = 0 \<and> smoothed_level st band = 0)"

text \<open>
  Stereo dual-mono as the specification words it, for one band on its own: the left
  sample of a pair goes through the band, then the right sample goes through the same
  band, and both squared outputs are added to the band's sum. \<open>dual_mono_pairs\<close>
  does this for a whole interleaved buffer.
\<close>

definition dual_mono_pair :: "real \<Rightarrow> real \<Rightarrow> FilterBand \<times> real \<Rightarrow> error + FilterBand \<times> real" where
  "dual_mono_pair l r acc =
     (case processFilterBand (fst acc) l of
        Inl e \<Rightarrow> Inl e
      | Inr (yl, band1) \<Rightarrow>
          (case processFilterBand band1 r of
             Inl e \<Rightarrow> Inl e
           | Inr (yr, band2) \<Rightarrow> Inr (band2, snd acc + yl ^ 2 + yr ^ 2)))"

fun dual_mono_pairs :: "real list \<Rightarrow> FilterBand \<times> real \<Rightarrow> error + FilterBand \<times> real" where
  "dual_mono_pairs (l # r # rest) acc =
     (case dual_mono_pair l r acc of Inl e \<Rightarrow> Inl e | Inr acc' \<Rightarrow> dual_mono_pairs rest acc')"
| "dual_mono_pairs rest acc = Inr acc"

text \<open>
  Allocation from the null pointer, with \<open>malloc\<close> returning the zero block,
  followed by one call of \<open>process_bank\<close>.
\<close>

definition alloc_process ::
    "real \<Rightarrow> int \<Rightarrow> real list \<Rightarrow> int \<Rightarrow> error + third_octave_filter \<times> nat" where
  "alloc_process rate order data buffer_size =
     (case third_octave_filter_alloc None (Some zero_block) rate order of
        Inl e \<Rightarrow> Inl e
      | Inr None \<Rightarrow> Inl NullPointerDereference
      | Inr (Some st) \<Rightarrow> process_bank st data buffer_size)"

text \<open>
  Modelled from the spec: \<open>third_octave_filter_setValue\<close>, which the header declares
  and the source file does not define. By the specification's configuration surface it
  sets the bypass flag and the channel mode; \<open>configure\<close> assigns the two fields.
\<close>

definition configure :: "real \<Rightarrow> int \<Rightarrow> third_octave_filter \<Rightarrow> third_octave_filter" where
  "configure bypass_value mode st = st\<lparr>bypass := bypass_value, channelType := mode\<rparr>"

text \<open>Allocation as in \<open>alloc_process\<close>, then \<open>configure\<close>, then one call.\<close>

definition alloc_configure_process ::
    "real \<Rightarrow> int \<Rightarrow> real \<Rightarrow> int \<Rightarrow> real list \<Rightarrow> int \<Rightarrow> error + third_octave_filter \<times> nat" where
  "alloc_configure_process rate order bypass_value mode data buffer_size =
     (case third_octave_filter_alloc None (Some zero_block) rate order of
        Inl e \<Rightarrow> Inl e
      | Inr None \<Rightarrow> Inl NullPointerDereference
      | Inr (Some st) \<Rightarrow> process_bank (configure bypass_value mode st) data buffer_size)"

text \<open>
  A sequence of calls of \<open>third_octave_filter_process\<close>, one per entry
  \<open>(bypass value, channel mode, buffer, length)\<close>; the bank is configured with the
  entry's bypass value and channel mode before the call.
\<close>

fun process_calls ::
    "third_octave_filter option \<Rightarrow> (real \<times> int \<times> real list \<times> int) list
      \<Rightarrow> error + third_octave_filter option" where
  "process_calls pFilterBank [] = Inr pFilterBank"
| "process_calls pFilterBank ((bypass_value, mode, data, buffer_size) # calls) =
     (case third_octave_filter_process (map_option (configure bypass_value mode) pFilterBank)
             data buffer_size of
        Inl e \<Rightarrow> Inl e
      | Inr (pFilterBank', data') \<Rightarrow> process_calls pFilterBank' calls)"

text \<open>
  The window-boundary check that follows every increment of \<open>samplesCount\<close>: the
  level reduction runs when the count has reached the threshold.
\<close>

definition window_check :: "third_octave_filter \<Rightarrow> third_octave_filter" where
  "window_check st =
     (if maxNumberOfSamples st \<le> uint64_of_int (samplesCount st) then calculateLevel st else st)"

text \<open>
  One stereo pair as the specification words it, on the whole bank: \<open>st1\<close> is the
  bank \<open>st\<close> after the pair \<open>(l, r)\<close> when every one of the 31 bands has taken
  \<open>l\<close> and then \<open>r\<close> through its own filter state and has had both squared outputs
  added to its own sum (\<open>dual_mono_pair\<close>), \<open>samplesCount\<close> has grown by 2, and
  nothing else has changed. In \<open>stereo_run\<close> the window-boundary check follows every
  pair.
\<close>

definition pair_accumulated ::
    "real \<Rightarrow> real \<Rightarrow> third_octave_filter \<Rightarrow> third_octave_filter \<Rightarrow> bool" where
  "pair_accumulated l r st st1 =
     (st1 = st\<lparr>bands := bands st1, temporal_sum := temporal_sum st1,
                samplesCount := samplesCount st + 2\<rparr>
      \<and> (\<forall>band. band < NUM_BANDS \<longrightarrow>
             dual_mono_pair l r (bands st band, temporal_sum st band)
               = Inr (bands st1 band, temporal_sum st1 band)))"

inductive stereo_run ::
    "real list \<Rightarrow> third_octave_filter \<Rightarrow> third_octave_filter \<Rightarrow> bool" where
  stereo_run_done: "stereo_run [] st st"
| stereo_run_pair:
    "pair_accumulated l r st st1 \<Longrightarrow> stereo_run rest (window_check st1) st'
      \<Longrightarrow> stereo_run (l # r # rest) st st'"

code_pred stereo_run .

text \<open>
  What a run leaves: the value of \<open>samplesCount\<close>, and the number of level
  reductions; what an allocation leaves: the threshold.
\<close>

definition threshold_after :: "error + third_octave_filter option \<Rightarrow> nat option" where
  "threshold_after r =
     (case r of Inl e \<Rightarrow> None | Inr None \<Rightarrow> None
      | Inr (Some st) \<Rightarrow> Some (maxNumberOfSamples st))"

definition samplesCount_after :: "error + third_octave_filter \<times> nat \<Rightarrow> int option" where
  "samplesCount_after r = (case r of Inl e \<Rightarrow> None | Inr (st, calls) \<Rightarrow> Some (samplesCount st))"

definition calls_after :: "error + third_octave_filter \<times> nat \<Rightarrow> nat option" where
  "calls_after r = (case r of Inl e \<Rightarrow> None | Inr (st, calls) \<Rightarrow> Some calls)"

text \<open>The loop equations are unfolded one iteration at a time, never by the simplifier.\<close>

declare mono_loop.simps [simp del] stereo_loop.simps [simp del]

section \<open>Single-precision rounding at the values used below\<close>

lemma powi_times_power:
  assumes "- int n \<le> e"
  shows "(2::real) powi e * 2 ^ n = 2 ^ nat (e + int n)"
proof -
  have "(2::real) powi e * 2 ^ n = 2 powi e * 2 powi (int n)"
    by (simp only: power_int_of_nat)
  also have "\<dots> = 2 powi (e + int n)"
    by (simp add: power_int_add)
  also have "\<dots> = 2 ^ nat (e + int n)"
    using assms by (simp add: power_int_def)
  finally show ?thesis .
qed

lemma scaled_bitlen:
  assumes lo: "2 powi e \<le> (y::real)" and hi: "y < 2 powi (e + 1)" and e: "- int n \<le> e"
  shows "bitlen \<lfloor>y * 2 ^ n\<rfloor> = e + int n + 1"
proof -
  let ?s = "\<lfloor>y * 2 ^ n\<rfloor>"
  have e1: "- int n \<le> e + 1" using e by simp
  have "real_of_int (2 ^ nat (e + int n)) = 2 powi e * 2 ^ n"
    using powi_times_power [OF e] by simp
  also have "\<dots> \<le> y * 2 ^ n"
    using lo by (simp add: mult_right_mono)
  finally have ge: "2 ^ nat (e + int n) \<le> ?s"
    by (simp only: le_floor_iff)
  have "y * 2 ^ n < 2 powi (e + 1) * 2 ^ n"
    using hi by (simp add: mult_strict_right_mono)
  also have "\<dots> = real_of_int (2 ^ nat (e + 1 + int n))"
    using powi_times_power [OF e1] by simp
  finally have lt: "?s < 2 ^ nat (e + 1 + int n)"
    by (simp only: floor_less_iff)
  have a: "bitlen ?s \<le> e + int n + 1"
    using lt e by (simp add: bitlen_le_iff_power add.commute add.left_commute)
  have b: "e + int n + 1 \<le> bitlen ?s"
    using ge e by (simp add: bitlen_ge_iff_power nat_diff_distrib nat_add_distrib)
  show ?thesis using a b by simp
qed

lemma float32_quantum_binade:
  assumes lo: "2 powi e \<le> \<bar>x\<bar>" and hi: "\<bar>x\<bar> < 2 powi (e + 1)" and e: "- 126 \<le> e"
  shows "float32_quantum x = 2 powi (e - 23)"
proof -
  have "- int 149 \<le> e" using e by simp
  from scaled_bitlen [OF lo hi this]
  have "bitlen \<lfloor>\<bar>x\<bar> * 2 ^ 149\<rfloor> = e + 150" by simp
  then show ?thesis
    unfolding float32_quantum_def using e by (simp add: max_def)
qed

lemma round_half_even_int [simp]: "round_half_even (of_int k) = k"
  by (simp add: round_half_even_def)

lemma float32_nonneg: "0 \<le> x \<Longrightarrow> 0 \<le> float32 x"
proof -
  assume x: "0 \<le> x"
  have q: "0 < float32_quantum x" by (simp add: float32_quantum_def)
  then have "0 \<le> x / float32_quantum x" using x by simp
  then have "0 \<le> \<lfloor>x / float32_quantum x\<rfloor>" by simp
  then have "0 \<le> round_half_even (x / float32_quantum x)"
    by (simp add: round_half_even_def Let_def)
  then show ?thesis using q by (simp add: float32_def)
qed

lemma float32_48: "float32 48 = 48"
proof -
  have "float32_quantum 48 = 2 powi (5 - 23)"
    by (rule float32_quantum_binade) simp_all
  then have q: "float32_quantum 48 = 1 / 2 ^ 18" by (simp add: power_int_def field_simps)
  have "(48::real) / (1 / 2 ^ 18) = of_int (48 * 2 ^ 18)" by simp
  then show ?thesis unfolding float32_def q by (simp only: round_half_even_int) simp
qed

lemma float32_125: "float32 125 = 125"
proof -
  have "float32_quantum 125 = 2 powi (6 - 23)"
    by (rule float32_quantum_binade) simp_all
  then have q: "float32_quantum 125 = 1 / 2 ^ 17" by (simp add: power_int_def field_simps)
  have "(125::real) / (1 / 2 ^ 17) = of_int (125 * 2 ^ 17)" by simp
  then show ?thesis unfolding float32_def q by (simp only: round_half_even_int) simp
qed

lemma float32_6000: "float32 6000 = 6000"
proof -
  have "float32_quantum 6000 = 2 powi (12 - 23)"
    by (rule float32_quantum_binade) simp_all
  then have q: "float32_quantum 6000 = 1 / 2 ^ 11" by (simp add: power_int_def field_simps)
  have "(6000::real) / (1 / 2 ^ 11) = of_int (6000 * 2 ^ 11)" by simp
  then show ?thesis unfolding float32_def q by (simp only: round_half_even_int) simp
qed

lemma float32_2008_div: "float32 (2008 / 1000) = 8422162 / 2 ^ 22"
proof -
  have "float32_quantum (2008 / 1000) = 2 powi (1 - 23)"
    by (rule float32_quantum_binade) simp_all
  then have q: "float32_quantum (2008 / 1000) = 1 / 2 ^ 22" by (simp add: power_int_def field_simps)
  have f: "\<lfloor>(2008::real) / 1000 / (1 / 2 ^ 22)\<rfloor> = 8422162"
    by (simp add: floor_eq_iff)
  have "round_half_even (2008 / 1000 / (1 / 2 ^ 22)) = 8422162"
    unfolding round_half_even_def f Let_def by simp
  then show ?thesis unfolding float32_def q by simp
qed

lemma float32_2008_mul: "float32 (8422162 / 2 ^ 22 * 125) = 16449535 / 2 ^ 16"
proof -
  have "float32_quantum (8422162 / 2 ^ 22 * 125) = 2 powi (7 - 23)"
    by (rule float32_quantum_binade) simp_all
  then have q: "float32_quantum (8422162 / 2 ^ 22 * 125) = 1 / 2 ^ 16"
    by (simp add: power_int_def field_simps)
  have f: "\<lfloor>(8422162::real) / 2 ^ 22 * 125 / (1 / 2 ^ 16)\<rfloor> = 16449535"
    by (simp add: floor_eq_iff)
  have "round_half_even (8422162 / 2 ^ 22 * 125 / (1 / 2 ^ 16)) = 16449535"
    unfolding round_half_even_def f Let_def by simp
  then show ?thesis unfolding float32_def q by simp
qed

lemma window_samples_48000: "window_samples 48000 125 = 6000"
proof -
  have "window_samples 48000 125 = float32 (float32 48 * float32 125)"
    by (simp add: window_samples_def)
  then show ?thesis by (simp add: float32_48 float32_125 float32_6000)
qed

lemma window_samples_2008: "window_samples 2008 125 = 16449535 / 2 ^ 16"
proof -
  have "window_samples 2008 125 = float32 (float32 (2008 / 1000) * float32 125)"
    by (simp only: window_samples_def of_int_numeral)
  then show ?thesis by (simp only: float32_2008_div float32_125 float32_2008_mul)
qed

lemma window_samples_nonneg: "0 \<le> rate \<Longrightarrow> 0 \<le> window_samples rate 125"
  by (simp add: window_samples_def float32_nonneg)

section \<open>Basic facts about the loops, the level reduction and the band cascade\<close>

lemma foldE_append:
  "foldE f (xs @ ys) s = (case foldE f xs s of Inl e \<Rightarrow> Inl e | Inr s' \<Rightarrow> foldE f ys s')"
  by (induction xs arbitrary: s) (auto split: sum.splits)

lemma fold_calculateLevel_band_idle:
  "samplesCount st \<le> 0 \<Longrightarrow> fold calculateLevel_band xs st = st"
  by (induction xs) (simp_all add: calculateLevel_band_def)

lemma calculateLevel_band0:
  "calculateLevel st = (calculateLevel_band 0 st)\<lparr>samplesCount := 0\<rparr>"
proof -
  have upt: "[0..<NUM_BANDS] = 0 # [1..<NUM_BANDS]"
    by (simp add: NUM_BANDS_def upt_conv_Cons)
  have "samplesCount (calculateLevel_band 0 st) \<le> 0"
    by (simp add: calculateLevel_band_def Let_def)
  then have "fold calculateLevel_band [1..<NUM_BANDS] (calculateLevel_band 0 st) = calculateLevel_band 0 st"
    by (rule fold_calculateLevel_band_idle)
  then show ?thesis
    by (simp add: calculateLevel_def upt)
qed

lemma processFilterBand_cases:
  assumes "num_sections band \<le> 2"
  shows "\<exists>y band'. processFilterBand band x = Inr (y, band') \<and> num_sections band' = num_sections band"
proof -
  have "nat (num_sections band) = 0 \<or> nat (num_sections band) = 1 \<or> nat (num_sections band) = 2"
    using assms by linarith
  then show ?thesis
    by (auto simp: processFilterBand_def processFilterBand_step_def section_at_def
        SECTIONS_CAPACITY_def Let_def upt_conv_Cons numeral_2_eq_2 split: prod.splits)
qed

lemma order2_two_rows: "list_all two_rows coefficients_order2"
  by (simp add: coefficients_order2_def two_rows_def)

lemma order2_length: "length coefficients_order2 = 31"
  by (simp add: coefficients_order2_def)
lemma order4_length: "length coefficients_order4 = 31"
  by (simp add: coefficients_order4_def)

section \<open>What the installation of the coefficients does\<close>

lemma write_section_ok:
  "j < 2 \<Longrightarrow> \<exists>band'. write_section (j, row) band = Inr band' \<and> num_sections band' = num_sections band"
  by (cases row) (simp add: write_section_def SECTIONS_CAPACITY_def)

lemma initialize_band_two_rows:
  assumes "two_rows e"
  shows "\<exists>band'. initialize_band e band = Inr band' \<and> num_sections band' = 2"
proof -
  obtain cf r0 r1 where e: "e = (cf, 2, [r0, r1])"
    using assms by (cases e) (auto simp: two_rows_def length_Suc_conv numeral_2_eq_2)
  obtain band1 where b1: "write_section (0, r0) (band\<lparr>center_freq := cf, num_sections := 2\<rparr>) = Inr band1"
      and n1: "num_sections band1 = 2"
    using write_section_ok [of 0 r0 "band\<lparr>center_freq := cf, num_sections := 2\<rparr>"] by auto
  obtain band2 where b2: "write_section (Suc 0, r1) band1 = Inr band2"
      and n2: "num_sections band2 = 2"
    using write_section_ok [of "Suc 0" r1 band1] n1 by auto
  show ?thesis
    by (simp add: e initialize_band_def b1 b2 n2)
qed

lemma initialize_bands_two_rows:
  assumes "list_all two_rows es"
  shows "\<exists>bs'. foldE initialize_band_at (enumerate n es) bs = Inr bs'
           \<and> (\<forall>k. n \<le> k \<and> k < n + length es \<longrightarrow> num_sections (bs' k) = 2)
           \<and> (\<forall>k. k < n \<or> n + length es \<le> k \<longrightarrow> bs' k = bs k)"
  using assms
proof (induction es arbitrary: n bs)
  case Nil
  then show ?case by simp
next
  case (Cons e es)
  from Cons.prems have e: "two_rows e" and es: "list_all two_rows es" by simp_all
  obtain band' where b: "initialize_band e (bs n) = Inr band'" and nb: "num_sections band' = 2"
    using initialize_band_two_rows [OF e] by blast
  obtain bs' where f: "foldE initialize_band_at (enumerate (Suc n) es) (bs(n := band')) = Inr bs'"
      and inside: "\<forall>k. Suc n \<le> k \<and> k < Suc n + length es \<longrightarrow> num_sections (bs' k) = 2"
      and outside: "\<forall>k. k < Suc n \<or> Suc n + length es \<le> k \<longrightarrow> bs' k = (bs(n := band')) k"
    using Cons.IH [OF es, of "Suc n" "bs(n := band')"] by blast
  have "foldE initialize_band_at (enumerate n (e # es)) bs = Inr bs'"
    by (simp add: initialize_band_at_def b f)
  moreover have "\<forall>k. n \<le> k \<and> k < n + length (e # es) \<longrightarrow> num_sections (bs' k) = 2"
  proof (intro allI impI)
    fix k assume k: "n \<le> k \<and> k < n + length (e # es)"
    show "num_sections (bs' k) = 2"
    proof (cases "k = n")
      case True
      then show ?thesis using outside nb by simp
    next
      case False
      then show ?thesis using k inside by simp
    qed
  qed
  moreover have "\<forall>k. k < n \<or> n + length (e # es) \<le> k \<longrightarrow> bs' k = bs k"
    using outside by auto
  ultimately show ?case by blast
qed

lemma initializeFilterBank_order2:
  "\<exists>bs'. initializeFilterBank bs 2 = Inr bs'
     \<and> (\<forall>k. k < NUM_BANDS \<longrightarrow> num_sections (bs' k) = 2)
     \<and> (\<forall>k. NUM_BANDS \<le> k \<longrightarrow> bs' k = bs k)"
  using initialize_bands_two_rows [OF order2_two_rows, of 0 bs]
  by (simp add: initializeFilterBank_def order2_length NUM_BANDS_def)

lemma order4_four_rows: "list_all four_rows coefficients_order4"
  by (simp add: coefficients_order4_def four_rows_def)

lemma initialize_band_four_rows:
  assumes "four_rows e"
  shows "initialize_band e band = Inl (SectionIndexOutOfBounds 2)"
proof -
  obtain cf r0 r1 r2 r3 where e: "e = (cf, 4, [r0, r1, r2, r3])"
    using assms by (cases e) (auto simp: four_rows_def length_Suc_conv numeral_eq_Suc)
  show ?thesis
    by (cases r0; cases r1; cases r2)
       (simp add: e initialize_band_def write_section_def SECTIONS_CAPACITY_def)
qed

lemma initializeFilterBank_order4:
  "initializeFilterBank bs 4 = Inl (SectionIndexOutOfBounds 2)"
proof -
  obtain e rest where t: "coefficients_order4 = e # rest"
    using order4_length by (cases coefficients_order4) auto
  have "four_rows e"
    using order4_four_rows by (simp add: t)
  then have "initialize_band e (bs 0) = Inl (SectionIndexOutOfBounds 2)"
    by (rule initialize_band_four_rows)
  then show ?thesis
    by (simp add: initializeFilterBank_def t initialize_band_at_def)
qed

section \<open>Reset and the zeroing loop of the allocation\<close>

lemma reset_sections_ok:
  assumes "num_sections band \<le> 2"
  shows "\<exists>band'. foldE reset_section [0..<nat (num_sections band)] band = Inr band'
           \<and> num_sections band' = num_sections band"
proof -
  have "nat (num_sections band) = 0 \<or> nat (num_sections band) = 1 \<or> nat (num_sections band) = 2"
    using assms by linarith
  then show ?thesis
    by (auto simp: reset_section_def section_at_def SECTIONS_CAPACITY_def upt_conv_Cons
        numeral_2_eq_2)
qed

lemma reset_band_ok:
  assumes "num_sections (bands st band) \<le> 2"
  shows "\<exists>band'. reset_band band st = Inr (st\<lparr>bands := (bands st)(band := band')\<rparr>)
           \<and> num_sections band' = num_sections (bands st band)"
  using reset_sections_ok [OF assms] by (auto simp: reset_band_def)

lemma reset_bands_ok:
  assumes "\<forall>k. k < n \<longrightarrow> num_sections (bands st k) \<le> 2"
  shows "\<exists>bs'. foldE reset_band [0..<n] st = Inr (st\<lparr>bands := bs'\<rparr>)
           \<and> (\<forall>k. num_sections (bs' k) = num_sections (bands st k))"
  using assms
proof (induction n)
  case 0
  have "st = st\<lparr>bands := bands st\<rparr>" by simp
  then show ?case
    by (metis foldE.simps(1) upt_0)
next
  case (Suc n)
  then obtain bs1 where f: "foldE reset_band [0..<n] st = Inr (st\<lparr>bands := bs1\<rparr>)"
      and ns: "\<forall>k. num_sections (bs1 k) = num_sections (bands st k)"
    by auto
  have "num_sections (bands (st\<lparr>bands := bs1\<rparr>) n) \<le> 2"
    using ns Suc.prems by simp
  from reset_band_ok [OF this]
  obtain band' where r: "reset_band n (st\<lparr>bands := bs1\<rparr>) = Inr (st\<lparr>bands := bs1(n := band')\<rparr>)"
      and nb: "num_sections band' = num_sections (bs1 n)"
    by auto
  have "foldE reset_band [0..<Suc n] st = Inr (st\<lparr>bands := bs1(n := band')\<rparr>)"
    by (simp add: foldE_append f r)
  moreover have "\<forall>k. num_sections ((bs1(n := band')) k) = num_sections (bands st k)"
    using ns nb by simp
  ultimately show ?case by blast
qed

lemma resetFilterState_ok:
  assumes "\<forall>k. k < NUM_BANDS \<longrightarrow> num_sections (bands st k) \<le> 2"
  shows "\<exists>bs'. resetFilterState st = Inr (st\<lparr>bands := bs', initialized := 1\<rparr>)
           \<and> (\<forall>k. num_sections (bs' k) = num_sections (bands st k))"
  using reset_bands_ok [OF assms] by (auto simp: resetFilterState_def)

lemma zero_band_levels_fold:
  "\<exists>ts vs ss. fold zero_band_levels [0..<n] st
       = st\<lparr>temporal_sum := ts, volume_level := vs, smoothed_level := ss\<rparr>
     \<and> (\<forall>k. k < n \<longrightarrow> ts k = 0 \<and> vs k = 0 \<and> ss k = 0)"
proof (induction n)
  case 0
  have "st = st\<lparr>temporal_sum := temporal_sum st, volume_level := volume_level st,
                 smoothed_level := smoothed_level st\<rparr>" by simp
  then show ?case by (metis fold_simps(1) upt_0 not_less_zero)
next
  case (Suc n)
  then obtain ts vs ss where
      f: "fold zero_band_levels [0..<n] st
            = st\<lparr>temporal_sum := ts, volume_level := vs, smoothed_level := ss\<rparr>"
      and z: "\<forall>k. k < n \<longrightarrow> ts k = 0 \<and> vs k = 0 \<and> ss k = 0"
    by blast
  have "fold zero_band_levels [0..<Suc n] st
          = st\<lparr>temporal_sum := ts(n := 0), volume_level := vs(n := 0), smoothed_level := ss(n := 0)\<rparr>"
    by (simp add: f zero_band_levels_def)
  moreover have "\<forall>k. k < Suc n \<longrightarrow> (ts(n := 0)) k = 0 \<and> (vs(n := 0)) k = 0 \<and> (ss(n := 0)) k = 0"
    using z by (simp add: less_Suc_eq)
  ultimately show ?case by blast
qed

section \<open>One sample through all bands\<close>

lemma accumulate_band_ok:
  assumes "num_sections (bands st k) \<le> 2"
  shows "\<exists>band' s'. accumulate_band x k st
            = Inr (st\<lparr>bands := (bands st)(k := band'), temporal_sum := (temporal_sum st)(k := s')\<rparr>)
          \<and> num_sections band' = num_sections (bands st k)"
proof -
  obtain y band' where p: "processFilterBand (bands st k) x = Inr (y, band')"
      and n: "num_sections band' = num_sections (bands st k)"
    using processFilterBand_cases [OF assms, of x] by blast
  have "accumulate_band x k st
      = Inr (st\<lparr>bands := (bands st)(k := band'),
               temporal_sum := (temporal_sum st)(k := temporal_sum st k + y ^ 2)\<rparr>)"
    by (simp add: accumulate_band_def p)
  then show ?thesis using n by blast
qed

lemma accumulate_bands_ok:
  assumes "\<forall>k. k < n \<longrightarrow> num_sections (bands st k) \<le> 2"
  shows "\<exists>bs ts. foldE (accumulate_band x) [0..<n] st = Inr (st\<lparr>bands := bs, temporal_sum := ts\<rparr>)
           \<and> (\<forall>k. num_sections (bs k) = num_sections (bands st k))"
  using assms
proof (induction n)
  case 0
  have "st = st\<lparr>bands := bands st, temporal_sum := temporal_sum st\<rparr>" by simp
  then show ?case by (metis foldE.simps(1) upt_0)
next
  case (Suc n)
  then obtain bs ts where f: "foldE (accumulate_band x) [0..<n] st = Inr (st\<lparr>bands := bs, temporal_sum := ts\<rparr>)"
      and ns: "\<forall>k. num_sections (bs k) = num_sections (bands st k)"
    by auto
  have "num_sections (bands (st\<lparr>bands := bs, temporal_sum := ts\<rparr>) n) \<le> 2"
    using ns Suc.prems by simp
  from accumulate_band_ok [OF this, of x]
  obtain band' s' where a: "accumulate_band x n (st\<lparr>bands := bs, temporal_sum := ts\<rparr>)
        = Inr (st\<lparr>bands := bs(n := band'), temporal_sum := ts(n := s')\<rparr>)"
      and nb: "num_sections band' = num_sections (bs n)"
    by auto
  have "foldE (accumulate_band x) [0..<Suc n] st = Inr (st\<lparr>bands := bs(n := band'), temporal_sum := ts(n := s')\<rparr>)"
    by (simp add: foldE_append f a)
  moreover have "\<forall>k. num_sections ((bs(n := band')) k) = num_sections (bands st k)"
    using ns nb by simp
  ultimately show ?case by blast
qed

lemma dual_mono_pair_ok:
  assumes "num_sections band \<le> 2"
  shows "\<exists>band' s'. dual_mono_pair l r (band, s) = Inr (band', s')
           \<and> num_sections band' = num_sections band"
proof -
  obtain yl band1 where p1: "processFilterBand band l = Inr (yl, band1)"
      and n1: "num_sections band1 = num_sections band"
    using processFilterBand_cases [OF assms, of l] by blast
  have "num_sections band1 \<le> 2" using n1 assms by simp
  then obtain yr band2 where p2: "processFilterBand band1 r = Inr (yr, band2)"
      and n2: "num_sections band2 = num_sections band1"
    using processFilterBand_cases [of band1 r] by blast
  show ?thesis
    by (simp add: dual_mono_pair_def p1 p2 n1 n2)
qed

lemma accumulate_band_stereo_pair:
  assumes "dual_mono_pair l r (bands st k, temporal_sum st k) = Inr (band', s')"
  shows "accumulate_band_stereo l r k st
           = Inr (st\<lparr>bands := (bands st)(k := band'), temporal_sum := (temporal_sum st)(k := s')\<rparr>)"
  using assms
  by (auto simp: accumulate_band_stereo_def dual_mono_pair_def Let_def split: sum.splits prod.splits)

lemma accumulate_bands_stereo_ok:
  assumes "\<forall>k. k < n \<longrightarrow> num_sections (bands st k) \<le> 2"
  shows "\<exists>bs ts. foldE (accumulate_band_stereo l r) [0..<n] st
              = Inr (st\<lparr>bands := bs, temporal_sum := ts\<rparr>)
           \<and> (\<forall>k. num_sections (bs k) = num_sections (bands st k))
           \<and> (\<forall>k. k < n \<longrightarrow> dual_mono_pair l r (bands st k, temporal_sum st k) = Inr (bs k, ts k))
           \<and> (\<forall>k. n \<le> k \<longrightarrow> bs k = bands st k \<and> ts k = temporal_sum st k)"
  using assms
proof (induction n)
  case 0
  have "st = st\<lparr>bands := bands st, temporal_sum := temporal_sum st\<rparr>" by simp
  then have "foldE (accumulate_band_stereo l r) [0..<0] st
      = Inr (st\<lparr>bands := bands st, temporal_sum := temporal_sum st\<rparr>)" by simp
  then show ?case by blast
next
  case (Suc n)
  then obtain bs ts where
      f: "foldE (accumulate_band_stereo l r) [0..<n] st = Inr (st\<lparr>bands := bs, temporal_sum := ts\<rparr>)"
      and ns: "\<forall>k. num_sections (bs k) = num_sections (bands st k)"
      and inside: "\<forall>k. k < n \<longrightarrow> dual_mono_pair l r (bands st k, temporal_sum st k) = Inr (bs k, ts k)"
      and outside: "\<forall>k. n \<le> k \<longrightarrow> bs k = bands st k \<and> ts k = temporal_sum st k"
    by auto
  have "num_sections (bs n) \<le> 2"
    using ns Suc.prems by simp
  then obtain band' s' where d: "dual_mono_pair l r (bs n, ts n) = Inr (band', s')"
      and nb: "num_sections band' = num_sections (bs n)"
    using dual_mono_pair_ok by blast
  have "accumulate_band_stereo l r n (st\<lparr>bands := bs, temporal_sum := ts\<rparr>)
        = Inr (st\<lparr>bands := bs(n := band'), temporal_sum := ts(n := s')\<rparr>)"
    using accumulate_band_stereo_pair [of l r "st\<lparr>bands := bs, temporal_sum := ts\<rparr>" n band' s'] d
    by simp
  then have "foldE (accumulate_band_stereo l r) [0..<Suc n] st
      = Inr (st\<lparr>bands := bs(n := band'), temporal_sum := ts(n := s')\<rparr>)"
    by (simp add: foldE_append f)
  moreover have "\<forall>k. num_sections ((bs(n := band')) k) = num_sections (bands st k)"
    using ns nb by simp
  moreover have "\<forall>k. k < Suc n \<longrightarrow>
      dual_mono_pair l r (bands st k, temporal_sum st k) = Inr ((bs(n := band')) k, (ts(n := s')) k)"
    using inside outside d by (auto simp: less_Suc_eq)
  moreover have "\<forall>k. Suc n \<le> k \<longrightarrow> (bs(n := band')) k = bands st k \<and> (ts(n := s')) k = temporal_sum st k"
    using outside by auto
  ultimately show ?case by blast
qed

lemma accumulate_band_frame:
  "accumulate_band x k st = Inr st' \<Longrightarrow>
     volume_level st' = volume_level st \<and> smoothed_level st' = smoothed_level st"
  by (auto simp: accumulate_band_def split: sum.splits prod.splits)

lemma accumulate_band_stereo_frame:
  "accumulate_band_stereo l r k st = Inr st' \<Longrightarrow>
     volume_level st' = volume_level st \<and> smoothed_level st' = smoothed_level st"
  by (auto simp: accumulate_band_stereo_def Let_def split: sum.splits prod.splits)

lemma accumulate_bands_frame:
  "foldE (accumulate_band x) ks st = Inr st' \<Longrightarrow>
     volume_level st' = volume_level st \<and> smoothed_level st' = smoothed_level st"
proof (induction ks arbitrary: st)
  case Nil
  then show ?case by simp
next
  case (Cons k ks)
  then show ?case
    by (auto split: sum.splits dest!: accumulate_band_frame)
qed

lemma accumulate_bands_stereo_frame:
  "foldE (accumulate_band_stereo l r) ks st = Inr st' \<Longrightarrow>
     volume_level st' = volume_level st \<and> smoothed_level st' = smoothed_level st"
proof (induction ks arbitrary: st)
  case Nil
  then show ?case by simp
next
  case (Cons k ks)
  then show ?case
    by (auto split: sum.splits dest!: accumulate_band_stereo_frame)
qed

section \<open>The sample counter and the iterations of the left and right loops\<close>

lemma calculateLevel_samplesCount [simp]: "samplesCount (calculateLevel st) = 0"
  by (simp add: calculateLevel_band0)

lemma calculateLevel_frame:
  "bands (calculateLevel st) = bands st"
  "maxNumberOfSamples (calculateLevel st) = maxNumberOfSamples st"
  "bypass (calculateLevel st) = bypass st"
  "channelType (calculateLevel st) = channelType st"
  by (simp_all add: calculateLevel_band0 calculateLevel_band_def Let_def)

lemma calculateLevel_other_bands:
  assumes "0 < band"
  shows "temporal_sum (calculateLevel st) band = temporal_sum st band"
    and "volume_level (calculateLevel st) band = volume_level st band"
    and "smoothed_level (calculateLevel st) band = smoothed_level st band"
  using assms by (simp_all add: calculateLevel_band0 calculateLevel_band_def Let_def)

lemma calculateLevel_band0_reset:
  "0 < samplesCount st \<Longrightarrow> temporal_sum (calculateLevel st) 0 = 0"
  by (simp add: calculateLevel_band0 calculateLevel_band_def Let_def)

lemma calculateLevel_levels_zero:
  assumes "volume_level st k = 0" "smoothed_level st k = 0"
  shows "volume_level (calculateLevel st) k = 0 \<and> smoothed_level (calculateLevel st) k = 0"
proof (cases "k = 0")
  case True
  then show ?thesis using assms
    by (simp add: calculateLevel_band0 calculateLevel_band_def Let_def)
next
  case False
  then show ?thesis using assms calculateLevel_other_bands [of k st] by simp
qed

lemma uint64_of_int_small:
  "0 \<le> c \<Longrightarrow> c \<le> INT_MAX \<Longrightarrow> uint64_of_int c = nat c"
  by (simp add: uint64_of_int_def INT_MAX_def)

lemma advance_count_quiet:
  assumes "0 \<le> samplesCount st" "0 \<le> k"
    and "samplesCount st + k < int (maxNumberOfSamples st)"
    and "int (maxNumberOfSamples st) \<le> INT_MAX"
  shows "advance_count k (st, c) = Inr (st\<lparr>samplesCount := samplesCount st + k\<rparr>, c)"
proof -
  have "uint64_of_int (samplesCount st + k) = nat (samplesCount st + k)"
    using assms by (intro uint64_of_int_small) simp_all
  then show ?thesis
    using assms by (simp add: advance_count_def Let_def)
qed

lemma advance_count_boundary:
  assumes "0 \<le> samplesCount st" "0 \<le> k"
    and "int (maxNumberOfSamples st) \<le> samplesCount st + k"
    and "samplesCount st + k \<le> INT_MAX"
  shows "advance_count k (st, c)
           = Inr (calculateLevel (st\<lparr>samplesCount := samplesCount st + k\<rparr>), Suc c)"
proof -
  have "uint64_of_int (samplesCount st + k) = nat (samplesCount st + k)"
    using assms by (intro uint64_of_int_small) simp_all
  then show ?thesis
    using assms by (simp add: advance_count_def Let_def)
qed

lemma read_sample_ok:
  "0 \<le> i \<Longrightarrow> i < int (length data) \<Longrightarrow> read_sample data i = Inr (data ! nat i)"
  by (simp add: read_sample_def)

lemma mono_loop_done: "\<not> i < n \<Longrightarrow> mono_loop data n i acc = Inr acc"
  by (subst mono_loop.simps) simp

lemma mono_loop_step:
  assumes "i < n" "read_sample data i = Inr x"
    and "foldE (accumulate_band x) [0..<NUM_BANDS] st = Inr st1"
    and "advance_count 1 (st1, c) = Inr acc'"
    and "i + 2 \<le> INT_MAX"
  shows "mono_loop data n i (st, c) = mono_loop data n (i + 2) acc'"
  using assms by (subst mono_loop.simps) simp

lemma mono_loop_quiet:
  assumes "m = nat ((n - i + 1) div 2)"
    and "sections_fit st" "0 \<le> samplesCount st" "0 \<le> i"
    and "n \<le> int (length data)" "n < INT_MAX"
    and "samplesCount st + int m < int (maxNumberOfSamples st)"
    and "int (maxNumberOfSamples st) \<le> INT_MAX"
  shows "\<exists>bs ts. mono_loop data n i (st, c)
             = Inr (st\<lparr>bands := bs, temporal_sum := ts, samplesCount := samplesCount st + int m\<rparr>, c)
           \<and> (\<forall>k. num_sections (bs k) = num_sections (bands st k))"
  using assms
proof (induction m arbitrary: i st)
  case 0
  then have "\<not> i < n" by linarith
  then have "mono_loop data n i (st, c) = Inr (st, c)"
    by (rule mono_loop_done)
  moreover have "st = st\<lparr>bands := bands st, temporal_sum := temporal_sum st,
      samplesCount := samplesCount st + int 0\<rparr>" by simp
  ultimately show ?case by metis
next
  case (Suc m)
  from Suc.prems(1) have lt: "i < n" by linarith
  have m: "m = nat ((n - (i + 2) + 1) div 2)"
    using Suc.prems(1) by linarith
  have rd: "read_sample data i = Inr (data ! nat i)"
    using lt Suc.prems by (intro read_sample_ok) simp_all
  have "\<forall>k. k < NUM_BANDS \<longrightarrow> num_sections (bands st k) \<le> 2"
    using Suc.prems(2) by (simp add: sections_fit_def)
  from accumulate_bands_ok [OF this, of "data ! nat i"]
  obtain bs ts where
      f: "foldE (accumulate_band (data ! nat i)) [0..<NUM_BANDS] st
            = Inr (st\<lparr>bands := bs, temporal_sum := ts\<rparr>)"
      and ns: "\<forall>k. num_sections (bs k) = num_sections (bands st k)"
    by blast
  define st1 where "st1 = st\<lparr>bands := bs, temporal_sum := ts\<rparr>"
  have adv: "advance_count 1 (st1, c) = Inr (st1\<lparr>samplesCount := samplesCount st1 + 1\<rparr>, c)"
    using Suc.prems by (intro advance_count_quiet) (simp_all add: st1_def)
  define st2 where "st2 = st1\<lparr>samplesCount := samplesCount st1 + 1\<rparr>"
  have step: "mono_loop data n i (st, c) = mono_loop data n (i + 2) (st2, c)"
    using lt rd f adv Suc.prems(6) unfolding st1_def [symmetric] st2_def [symmetric]
    by (intro mono_loop_step [where x = "data ! nat i" and ?st1.0 = st1]) simp_all
  have fit2: "sections_fit st2"
    using Suc.prems(2) ns by (simp add: sections_fit_def st2_def st1_def)
  have "\<exists>bs' ts'. mono_loop data n (i + 2) (st2, c)
             = Inr (st2\<lparr>bands := bs', temporal_sum := ts', samplesCount := samplesCount st2 + int m\<rparr>, c)
           \<and> (\<forall>k. num_sections (bs' k) = num_sections (bands st2 k))"
  proof (rule Suc.IH [OF m fit2])
    show "0 \<le> samplesCount st2" using Suc.prems(3) by (simp add: st2_def st1_def)
    show "0 \<le> i + 2" using Suc.prems(4) by simp
    show "n \<le> int (length data)" by (rule Suc.prems(5))
    show "n < INT_MAX" by (rule Suc.prems(6))
    show "samplesCount st2 + int m < int (maxNumberOfSamples st2)"
      using Suc.prems(7) by (simp add: st2_def st1_def)
    show "int (maxNumberOfSamples st2) \<le> INT_MAX"
      using Suc.prems(8) by (simp add: st2_def st1_def)
  qed
  then obtain bs' ts' where
      r: "mono_loop data n (i + 2) (st2, c)
             = Inr (st2\<lparr>bands := bs', temporal_sum := ts', samplesCount := samplesCount st2 + int m\<rparr>, c)"
      and ns': "\<forall>k. num_sections (bs' k) = num_sections (bands st2 k)"
    by blast
  have "mono_loop data n i (st, c)
      = Inr (st\<lparr>bands := bs', temporal_sum := ts', samplesCount := samplesCount st + int (Suc m)\<rparr>, c)"
    using step r by (simp add: st2_def st1_def)
  moreover have "\<forall>k. num_sections (bs' k) = num_sections (bands st k)"
    using ns ns' by (simp add: st2_def st1_def)
  ultimately show ?case by blast
qed

lemma mono_loop_boundary:
  assumes "Suc m = nat ((n - i + 1) div 2)"
    and "sections_fit st" "0 \<le> samplesCount st" "0 \<le> i"
    and "n \<le> int (length data)" "n < INT_MAX"
    and "samplesCount st + int (Suc m) = int (maxNumberOfSamples st)"
    and "int (maxNumberOfSamples st) \<le> INT_MAX"
  shows "\<exists>st'. mono_loop data n i (st, c) = Inr (st', Suc c)
           \<and> samplesCount st' = 0 \<and> temporal_sum st' 0 = 0
           \<and> maxNumberOfSamples st' = maxNumberOfSamples st
           \<and> (\<forall>k. num_sections (bands st' k) = num_sections (bands st k))"
  using assms
proof (induction m arbitrary: i st)
  case 0
  from "0.prems"(1) have lt: "i < n" and last: "\<not> i + 2 < n" by linarith+
  have rd: "read_sample data i = Inr (data ! nat i)"
    using lt "0.prems" by (intro read_sample_ok) simp_all
  have "\<forall>k. k < NUM_BANDS \<longrightarrow> num_sections (bands st k) \<le> 2"
    using "0.prems"(2) by (simp add: sections_fit_def)
  from accumulate_bands_ok [OF this, of "data ! nat i"]
  obtain bs ts where
      f: "foldE (accumulate_band (data ! nat i)) [0..<NUM_BANDS] st
            = Inr (st\<lparr>bands := bs, temporal_sum := ts\<rparr>)"
      and ns: "\<forall>k. num_sections (bs k) = num_sections (bands st k)"
    by blast
  define st1 where "st1 = st\<lparr>bands := bs, temporal_sum := ts\<rparr>"
  define st2 where "st2 = calculateLevel (st1\<lparr>samplesCount := samplesCount st1 + 1\<rparr>)"
  have adv: "advance_count 1 (st1, c) = Inr (st2, Suc c)"
    unfolding st2_def using "0.prems"
    by (intro advance_count_boundary) (simp_all add: st1_def)
  have "mono_loop data n i (st, c) = mono_loop data n (i + 2) (st2, Suc c)"
    using lt rd f adv "0.prems"(6) unfolding st1_def [symmetric]
    by (intro mono_loop_step [where x = "data ! nat i" and ?st1.0 = st1]) simp_all
  also have "\<dots> = Inr (st2, Suc c)"
    using last by (rule mono_loop_done)
  finally have "mono_loop data n i (st, c) = Inr (st2, Suc c)" .
  moreover have "samplesCount st2 = 0" by (simp add: st2_def)
  moreover have "temporal_sum st2 0 = 0"
    unfolding st2_def using "0.prems"(3)
    by (intro calculateLevel_band0_reset) (simp add: st1_def)
  moreover have "maxNumberOfSamples st2 = maxNumberOfSamples st"
    by (simp add: st2_def calculateLevel_frame st1_def)
  moreover have "\<forall>k. num_sections (bands st2 k) = num_sections (bands st k)"
    using ns by (simp add: st2_def calculateLevel_frame st1_def)
  ultimately show ?case by blast
next
  case (Suc m)
  from Suc.prems(1) have lt: "i < n" by linarith
  have m: "Suc m = nat ((n - (i + 2) + 1) div 2)"
    using Suc.prems(1) by linarith
  have rd: "read_sample data i = Inr (data ! nat i)"
    using lt Suc.prems by (intro read_sample_ok) simp_all
  have "\<forall>k. k < NUM_BANDS \<longrightarrow> num_sections (bands st k) \<le> 2"
    using Suc.prems(2) by (simp add: sections_fit_def)
  from accumulate_bands_ok [OF this, of "data ! nat i"]
  obtain bs ts where
      f: "foldE (accumulate_band (data ! nat i)) [0..<NUM_BANDS] st
            = Inr (st\<lparr>bands := bs, temporal_sum := ts\<rparr>)"
      and ns: "\<forall>k. num_sections (bs k) = num_sections (bands st k)"
    by blast
  define st1 where "st1 = st\<lparr>bands := bs, temporal_sum := ts\<rparr>"
  define st2 where "st2 = st1\<lparr>samplesCount := samplesCount st1 + 1\<rparr>"
  have adv: "advance_count 1 (st1, c) = Inr (st2, c)"
    unfolding st2_def using Suc.prems
    by (intro advance_count_quiet) (simp_all add: st1_def)
  have step: "mono_loop data n i (st, c) = mono_loop data n (i + 2) (st2, c)"
    using lt rd f adv Suc.prems(6) unfolding st1_def [symmetric]
    by (intro mono_loop_step [where x = "data ! nat i" and ?st1.0 = st1]) simp_all
  have fit2: "sections_fit st2"
    using Suc.prems(2) ns by (simp add: sections_fit_def st2_def st1_def)
  have "\<exists>st'. mono_loop data n (i + 2) (st2, c) = Inr (st', Suc c)
           \<and> samplesCount st' = 0 \<and> temporal_sum st' 0 = 0
           \<and> maxNumberOfSamples st' = maxNumberOfSamples st2
           \<and> (\<forall>k. num_sections (bands st' k) = num_sections (bands st2 k))"
  proof (rule Suc.IH [OF m fit2])
    show "0 \<le> samplesCount st2" using Suc.prems(3) by (simp add: st2_def st1_def)
    show "0 \<le> i + 2" using Suc.prems(4) by simp
    show "n \<le> int (length data)" by (rule Suc.prems(5))
    show "n < INT_MAX" by (rule Suc.prems(6))
    show "samplesCount st2 + int (Suc m) = int (maxNumberOfSamples st2)"
      using Suc.prems(7) by (simp add: st2_def st1_def)
    show "int (maxNumberOfSamples st2) \<le> INT_MAX"
      using Suc.prems(8) by (simp add: st2_def st1_def)
  qed
  then obtain st' where r: "mono_loop data n (i + 2) (st2, c) = Inr (st', Suc c)"
      and facts: "samplesCount st' = 0" "temporal_sum st' 0 = 0"
        "maxNumberOfSamples st' = maxNumberOfSamples st2"
        "\<forall>k. num_sections (bands st' k) = num_sections (bands st2 k)"
    by blast
  have "mono_loop data n i (st, c) = Inr (st', Suc c)"
    using step r by simp
  moreover have "maxNumberOfSamples st' = maxNumberOfSamples st"
    using facts(3) by (simp add: st2_def st1_def)
  moreover have "\<forall>k. num_sections (bands st' k) = num_sections (bands st k)"
    using facts(4) ns by (simp add: st2_def st1_def)
  ultimately show ?case using facts(1,2) by blast
qed

section \<open>The iterations of the stereo loop\<close>

lemma stereo_loop_done: "\<not> i < n \<Longrightarrow> stereo_loop data n i acc = Inr acc"
  by (subst stereo_loop.simps) simp

lemma stereo_loop_step:
  assumes "i < n" "read_sample data i = Inr l" "read_sample data (i + 1) = Inr r"
    and "foldE (accumulate_band_stereo l r) [0..<NUM_BANDS] st = Inr st1"
    and "advance_count 2 (st1, c) = Inr acc'"
    and "i + 2 \<le> INT_MAX"
  shows "stereo_loop data n i (st, c) = stereo_loop data n (i + 2) acc'"
  using assms by (subst stereo_loop.simps) simp

lemma drop_pair:
  assumes "0 \<le> i" "i + 1 < int (length data)"
  shows "drop (nat i) data = data ! nat i # data ! nat (i + 1) # drop (nat (i + 2)) data"
proof -
  have a: "nat i < length data" "Suc (nat i) < length data" using assms by linarith+
  have b: "nat (i + 1) = Suc (nat i)" "nat (i + 2) = Suc (Suc (nat i))" using assms by linarith+
  show ?thesis
    using Cons_nth_drop_Suc [OF a(1)] Cons_nth_drop_Suc [OF a(2)] by (simp add: b)
qed

lemma stereo_loop_quiet:
  assumes "int (length data) = i + 2 * int m"
    and "sections_fit st" "0 \<le> samplesCount st" "0 \<le> i"
    and "int (length data) < INT_MAX"
    and "samplesCount st + 2 * int m < int (maxNumberOfSamples st)"
    and "int (maxNumberOfSamples st) \<le> INT_MAX"
  shows "\<exists>bs ts. stereo_loop data (int (length data)) i (st, c)
             = Inr (st\<lparr>bands := bs, temporal_sum := ts,
                       samplesCount := samplesCount st + 2 * int m\<rparr>, c)
           \<and> (\<forall>k. num_sections (bs k) = num_sections (bands st k))
           \<and> (\<forall>k. k < NUM_BANDS \<longrightarrow>
                 dual_mono_pairs (drop (nat i) data) (bands st k, temporal_sum st k)
                   = Inr (bs k, ts k))"
  using assms
proof (induction m arbitrary: i st)
  case 0
  then have "\<not> i < int (length data)" by linarith
  then have "stereo_loop data (int (length data)) i (st, c) = Inr (st, c)"
    by (rule stereo_loop_done)
  moreover have "st = st\<lparr>bands := bands st, temporal_sum := temporal_sum st,
      samplesCount := samplesCount st + 2 * int 0\<rparr>" by simp
  moreover have "drop (nat i) data = []" using "0.prems"(1) by simp
  ultimately show ?case
    by (metis dual_mono_pairs.simps(2))
next
  case (Suc m)
  let ?n = "int (length data)"
  let ?l = "data ! nat i" and ?r = "data ! nat (i + 1)"
  from Suc.prems(1) have lt: "i < ?n" and lt1: "i + 1 < ?n" by simp_all
  have m: "?n = (i + 2) + 2 * int m"
    using Suc.prems(1) by simp
  have rd: "read_sample data i = Inr ?l"
    using lt Suc.prems by (intro read_sample_ok) simp_all
  have rd1: "read_sample data (i + 1) = Inr ?r"
    using lt1 Suc.prems by (intro read_sample_ok) simp_all
  have "\<forall>k. k < NUM_BANDS \<longrightarrow> num_sections (bands st k) \<le> 2"
    using Suc.prems(2) by (simp add: sections_fit_def)
  from accumulate_bands_stereo_ok [OF this, of ?l ?r]
  obtain bs ts where
      f: "foldE (accumulate_band_stereo ?l ?r) [0..<NUM_BANDS] st
            = Inr (st\<lparr>bands := bs, temporal_sum := ts\<rparr>)"
      and ns: "\<forall>k. num_sections (bs k) = num_sections (bands st k)"
      and pair: "\<forall>k. k < NUM_BANDS \<longrightarrow>
          dual_mono_pair ?l ?r (bands st k, temporal_sum st k) = Inr (bs k, ts k)"
    by blast
  define st1 where "st1 = st\<lparr>bands := bs, temporal_sum := ts\<rparr>"
  define st2 where "st2 = st1\<lparr>samplesCount := samplesCount st1 + 2\<rparr>"
  have adv: "advance_count 2 (st1, c) = Inr (st2, c)"
    unfolding st2_def using Suc.prems
    by (intro advance_count_quiet) (simp_all add: st1_def)
  have step: "stereo_loop data ?n i (st, c) = stereo_loop data ?n (i + 2) (st2, c)"
    using lt rd rd1 f adv Suc.prems(5) unfolding st1_def [symmetric]
    by (intro stereo_loop_step [where l = ?l and r = ?r and ?st1.0 = st1]) simp_all
  have fit2: "sections_fit st2"
    using Suc.prems(2) ns by (simp add: sections_fit_def st2_def st1_def)
  have "\<exists>bs' ts'. stereo_loop data ?n (i + 2) (st2, c)
             = Inr (st2\<lparr>bands := bs', temporal_sum := ts',
                       samplesCount := samplesCount st2 + 2 * int m\<rparr>, c)
           \<and> (\<forall>k. num_sections (bs' k) = num_sections (bands st2 k))
           \<and> (\<forall>k. k < NUM_BANDS \<longrightarrow>
                 dual_mono_pairs (drop (nat (i + 2)) data) (bands st2 k, temporal_sum st2 k)
                   = Inr (bs' k, ts' k))"
  proof (rule Suc.IH [OF m fit2])
    show "0 \<le> samplesCount st2" using Suc.prems(3) by (simp add: st2_def st1_def)
    show "0 \<le> i + 2" using Suc.prems(4) by simp
    show "?n < INT_MAX" by (rule Suc.prems(5))
    show "samplesCount st2 + 2 * int m < int (maxNumberOfSamples st2)"
      using Suc.prems(6) by (simp add: st2_def st1_def)
    show "int (maxNumberOfSamples st2) \<le> INT_MAX"
      using Suc.prems(7) by (simp add: st2_def st1_def)
  qed
  then obtain bs' ts' where
      r: "stereo_loop data ?n (i + 2) (st2, c)
             = Inr (st2\<lparr>bands := bs', temporal_sum := ts',
                       samplesCount := samplesCount st2 + 2 * int m\<rparr>, c)"
      and ns': "\<forall>k. num_sections (bs' k) = num_sections (bands st2 k)"
      and rest: "\<forall>k. k < NUM_BANDS \<longrightarrow>
                 dual_mono_pairs (drop (nat (i + 2)) data) (bands st2 k, temporal_sum st2 k)
                   = Inr (bs' k, ts' k)"
    by blast
  have "stereo_loop data ?n i (st, c)
      = Inr (st\<lparr>bands := bs', temporal_sum := ts',
                samplesCount := samplesCount st + 2 * int (Suc m)\<rparr>, c)"
    using step r by (simp add: st2_def st1_def)
  moreover have "\<forall>k. num_sections (bs' k) = num_sections (bands st k)"
    using ns ns' by (simp add: st2_def st1_def)
  moreover have "\<forall>k. k < NUM_BANDS \<longrightarrow>
      dual_mono_pairs (drop (nat i) data) (bands st k, temporal_sum st k) = Inr (bs' k, ts' k)"
  proof (intro allI impI)
    fix k assume k: "k < NUM_BANDS"
    have "dual_mono_pairs (drop (nat i) data) (bands st k, temporal_sum st k)
        = dual_mono_pairs (drop (nat (i + 2)) data) (bs k, ts k)"
      using pair k by (simp add: drop_pair [OF Suc.prems(4) lt1])
    also have "\<dots> = Inr (bs' k, ts' k)"
      using rest k by (simp add: st2_def st1_def)
    finally show "dual_mono_pairs (drop (nat i) data) (bands st k, temporal_sum st k)
        = Inr (bs' k, ts' k)" .
  qed
  ultimately show ?case by blast
qed

lemma stereo_loop_boundary:
  assumes "int (length data) = i + 2 * int (Suc m)"
    and "sections_fit st" "0 \<le> samplesCount st" "0 \<le> i"
    and "int (length data) < INT_MAX"
    and "samplesCount st + 2 * int m < int (maxNumberOfSamples st)"
    and "int (maxNumberOfSamples st) \<le> samplesCount st + 2 * int (Suc m)"
    and "int (maxNumberOfSamples st) \<le> INT_MAX - 1"
  shows "\<exists>st'. stereo_loop data (int (length data)) i (st, c) = Inr (st', Suc c)
           \<and> samplesCount st' = 0"
  using assms
proof (induction m arbitrary: i st)
  case 0
  let ?n = "int (length data)"
  let ?l = "data ! nat i" and ?r = "data ! nat (i + 1)"
  from "0.prems"(1) have lt: "i < ?n" and lt1: "i + 1 < ?n" and last: "\<not> i + 2 < ?n"
    by simp_all
  have rd: "read_sample data i = Inr ?l"
    using lt "0.prems" by (intro read_sample_ok) simp_all
  have rd1: "read_sample data (i + 1) = Inr ?r"
    using lt1 "0.prems" by (intro read_sample_ok) simp_all
  have "\<forall>k. k < NUM_BANDS \<longrightarrow> num_sections (bands st k) \<le> 2"
    using "0.prems"(2) by (simp add: sections_fit_def)
  from accumulate_bands_stereo_ok [OF this, of ?l ?r]
  obtain bs ts where
      f: "foldE (accumulate_band_stereo ?l ?r) [0..<NUM_BANDS] st
            = Inr (st\<lparr>bands := bs, temporal_sum := ts\<rparr>)"
    by blast
  define st1 where "st1 = st\<lparr>bands := bs, temporal_sum := ts\<rparr>"
  define st2 where "st2 = calculateLevel (st1\<lparr>samplesCount := samplesCount st1 + 2\<rparr>)"
  have adv: "advance_count 2 (st1, c) = Inr (st2, Suc c)"
    unfolding st2_def using "0.prems"
    by (intro advance_count_boundary) (simp_all add: st1_def)
  have "stereo_loop data ?n i (st, c) = stereo_loop data ?n (i + 2) (st2, Suc c)"
    using lt rd rd1 f adv "0.prems"(5) unfolding st1_def [symmetric]
    by (intro stereo_loop_step [where l = ?l and r = ?r and ?st1.0 = st1]) simp_all
  also have "\<dots> = Inr (st2, Suc c)"
    using last by (rule stereo_loop_done)
  finally have "stereo_loop data ?n i (st, c) = Inr (st2, Suc c)" .
  moreover have "samplesCount st2 = 0" by (simp add: st2_def)
  ultimately show ?case by blast
next
  case (Suc m)
  let ?n = "int (length data)"
  let ?l = "data ! nat i" and ?r = "data ! nat (i + 1)"
  from Suc.prems(1) have lt: "i < ?n" and lt1: "i + 1 < ?n" by simp_all
  have m: "?n = (i + 2) + 2 * int (Suc m)"
    using Suc.prems(1) by simp
  have rd: "read_sample data i = Inr ?l"
    using lt Suc.prems by (intro read_sample_ok) simp_all
  have rd1: "read_sample data (i + 1) = Inr ?r"
    using lt1 Suc.prems by (intro read_sample_ok) simp_all
  have "\<forall>k. k < NUM_BANDS \<longrightarrow> num_sections (bands st k) \<le> 2"
    using Suc.prems(2) by (simp add: sections_fit_def)
  from accumulate_bands_stereo_ok [OF this, of ?l ?r]
  obtain bs ts where
      f: "foldE (accumulate_band_stereo ?l ?r) [0..<NUM_BANDS] st
            = Inr (st\<lparr>bands := bs, temporal_sum := ts\<rparr>)"
      and ns: "\<forall>k. num_sections (bs k) = num_sections (bands st k)"
    by blast
  define st1 where "st1 = st\<lparr>bands := bs, temporal_sum := ts\<rparr>"
  define st2 where "st2 = st1\<lparr>samplesCount := samplesCount st1 + 2\<rparr>"
  have adv: "advance_count 2 (st1, c) = Inr (st2, c)"
    unfolding st2_def using Suc.prems
    by (intro advance_count_quiet) (simp_all add: st1_def)
  have step: "stereo_loop data ?n i (st, c) = stereo_loop data ?n (i + 2) (st2, c)"
    using lt rd rd1 f adv Suc.prems(5) unfolding st1_def [symmetric]
    by (intro stereo_loop_step [where l = ?l and r = ?r and ?st1.0 = st1]) simp_all
  have fit2: "sections_fit st2"
    using Suc.prems(2) ns by (simp add: sections_fit_def st2_def st1_def)
  have "\<exists>st'. stereo_loop data ?n (i + 2) (st2, c) = Inr (st', Suc c) \<and> samplesCount st' = 0"
  proof (rule Suc.IH [OF m fit2])
    show "0 \<le> samplesCount st2" using Suc.prems(3) by (simp add: st2_def st1_def)
    show "0 \<le> i + 2" using Suc.prems(4) by simp
    show "?n < INT_MAX" by (rule Suc.prems(5))
    show "samplesCount st2 + 2 * int m < int (maxNumberOfSamples st2)"
      using Suc.prems(6) by (simp add: st2_def st1_def)
    show "int (maxNumberOfSamples st2) \<le> samplesCount st2 + 2 * int (Suc m)"
      using Suc.prems(7) by (simp add: st2_def st1_def)
    show "int (maxNumberOfSamples st2) \<le> INT_MAX - 1"
      using Suc.prems(8) by (simp add: st2_def st1_def)
  qed
  then show ?case using step by simp
qed

section \<open>The stereo loop as a run of pairs\<close>

lemma advance_count_window:
  assumes "samplesCount st + k \<le> INT_MAX"
  shows "\<exists>c'. advance_count k (st, c)
           = Inr (window_check (st\<lparr>samplesCount := samplesCount st + k\<rparr>), c')"
  using assms by (simp add: advance_count_def window_check_def Let_def)

lemma window_check_frame:
  "bands (window_check st) = bands st"
  "maxNumberOfSamples (window_check st) = maxNumberOfSamples st"
  by (simp_all add: window_check_def calculateLevel_frame)

lemma window_check_count:
  assumes "0 \<le> samplesCount st" "samplesCount st \<le> INT_MAX"
  shows "samplesCount (window_check st) = 0
         \<or> (samplesCount (window_check st) = samplesCount st
            \<and> samplesCount st < int (maxNumberOfSamples st))"
proof -
  have "uint64_of_int (samplesCount st) = nat (samplesCount st)"
    using assms by (rule uint64_of_int_small)
  then show ?thesis using assms(1) by (auto simp: window_check_def)
qed

lemma dual_mono_pair_band:
  assumes "dual_mono_pair l r acc = Inr acc1" "fst acc2 = fst acc"
  shows "\<exists>t. dual_mono_pair l r acc2 = Inr (fst acc1, t)"
  using assms by (auto simp: dual_mono_pair_def split: sum.splits prod.splits)

lemma dual_mono_pairs_band:
  "dual_mono_pairs data acc = Inr acc' \<Longrightarrow> fst acc2 = fst acc \<Longrightarrow>
     \<exists>t. dual_mono_pairs data acc2 = Inr (fst acc', t)"
proof (induction data arbitrary: acc acc2 rule: induct_list012)
  case 1
  then show ?case by (cases acc2) auto
next
  case (2 x)
  then show ?case by (cases acc2) auto
next
  case (3 l r rest)
  from "3.prems"(1) obtain acc1 where p: "dual_mono_pair l r acc = Inr acc1"
      and rest: "dual_mono_pairs rest acc1 = Inr acc'"
    by (auto split: sum.splits)
  obtain t where p2: "dual_mono_pair l r acc2 = Inr (fst acc1, t)"
    using dual_mono_pair_band [OF p "3.prems"(2)] by blast
  have "\<exists>t'. dual_mono_pairs rest (fst acc1, t) = Inr (fst acc', t')"
    using "3.IH"(1) [OF rest, of "(fst acc1, t)"] by simp
  then show ?case by (simp add: p2)
qed

lemma stereo_loop_run:
  assumes "int (length data) = i + 2 * int m"
    and "sections_fit st" "0 \<le> samplesCount st" "samplesCount st + 2 \<le> INT_MAX" "0 \<le> i"
    and "int (length data) < INT_MAX"
    and "int (maxNumberOfSamples st) < INT_MAX"
  shows "\<exists>st' c'. stereo_loop data (int (length data)) i (st, c) = Inr (st', c')
           \<and> stereo_run (drop (nat i) data) st st'
           \<and> (\<forall>k. k < NUM_BANDS \<longrightarrow>
                 (\<exists>s. dual_mono_pairs (drop (nat i) data) (bands st k, temporal_sum st k)
                        = Inr (bands st' k, s)))"
  using assms
proof (induction m arbitrary: i st c)
  case 0
  then have "\<not> i < int (length data)" by linarith
  then have "stereo_loop data (int (length data)) i (st, c) = Inr (st, c)"
    by (rule stereo_loop_done)
  moreover have "drop (nat i) data = []" using "0.prems"(1) by simp
  ultimately show ?case by (auto intro: stereo_run_done)
next
  case (Suc m)
  let ?n = "int (length data)"
  let ?l = "data ! nat i" and ?r = "data ! nat (i + 1)"
  from Suc.prems(1) have lt: "i < ?n" and lt1: "i + 1 < ?n" by simp_all
  have m: "?n = (i + 2) + 2 * int m"
    using Suc.prems(1) by simp
  have rd: "read_sample data i = Inr ?l"
    using lt Suc.prems by (intro read_sample_ok) simp_all
  have rd1: "read_sample data (i + 1) = Inr ?r"
    using lt1 Suc.prems by (intro read_sample_ok) simp_all
  have dr: "drop (nat i) data = ?l # ?r # drop (nat (i + 2)) data"
    by (rule drop_pair [OF Suc.prems(5) lt1])
  have "\<forall>k. k < NUM_BANDS \<longrightarrow> num_sections (bands st k) \<le> 2"
    using Suc.prems(2) by (simp add: sections_fit_def)
  from accumulate_bands_stereo_ok [OF this, of ?l ?r]
  obtain bs ts where
      f: "foldE (accumulate_band_stereo ?l ?r) [0..<NUM_BANDS] st
            = Inr (st\<lparr>bands := bs, temporal_sum := ts\<rparr>)"
      and ns: "\<forall>k. num_sections (bs k) = num_sections (bands st k)"
      and pair: "\<forall>k. k < NUM_BANDS \<longrightarrow>
          dual_mono_pair ?l ?r (bands st k, temporal_sum st k) = Inr (bs k, ts k)"
    by blast
  define st1 where "st1 = st\<lparr>bands := bs, temporal_sum := ts\<rparr>"
  define st1c where "st1c = st1\<lparr>samplesCount := samplesCount st1 + 2\<rparr>"
  define st2 where "st2 = window_check st1c"
  obtain c1 where adv: "advance_count 2 (st1, c) = Inr (st2, c1)"
    unfolding st2_def st1c_def
    using advance_count_window [of st1 2 c] Suc.prems(4) by (auto simp: st1_def)
  have step: "stereo_loop data ?n i (st, c) = stereo_loop data ?n (i + 2) (st2, c1)"
    using lt rd rd1 f adv Suc.prems(6) unfolding st1_def [symmetric]
    by (intro stereo_loop_step [where l = ?l and r = ?r and ?st1.0 = st1]) simp_all
  have acc: "pair_accumulated ?l ?r st st1c"
    using pair by (simp add: pair_accumulated_def st1c_def st1_def)
  have fit2: "sections_fit st2"
    using Suc.prems(2) ns
    by (simp add: sections_fit_def st2_def window_check_frame st1c_def st1_def)
  have c0: "0 \<le> samplesCount st1c" "samplesCount st1c \<le> INT_MAX"
    using Suc.prems(3,4) by (simp_all add: st1c_def st1_def)
  have T2: "maxNumberOfSamples st2 = maxNumberOfSamples st"
    by (simp add: st2_def window_check_frame st1c_def st1_def)
  have cnt: "0 \<le> samplesCount st2 \<and> samplesCount st2 + 2 \<le> INT_MAX"
    using window_check_count [OF c0] Suc.prems(7) c0
    unfolding st2_def [symmetric]
    by (auto simp: st1c_def st1_def INT_MAX_def)
  have "\<exists>st' c'. stereo_loop data ?n (i + 2) (st2, c1) = Inr (st', c')
           \<and> stereo_run (drop (nat (i + 2)) data) st2 st'
           \<and> (\<forall>k. k < NUM_BANDS \<longrightarrow>
                 (\<exists>s. dual_mono_pairs (drop (nat (i + 2)) data) (bands st2 k, temporal_sum st2 k)
                        = Inr (bands st' k, s)))"
  proof (rule Suc.IH [OF m fit2])
    show "0 \<le> samplesCount st2" using cnt by simp
    show "samplesCount st2 + 2 \<le> INT_MAX" using cnt by simp
    show "0 \<le> i + 2" using Suc.prems(5) by simp
    show "?n < INT_MAX" by (rule Suc.prems(6))
    show "int (maxNumberOfSamples st2) < INT_MAX" using Suc.prems(7) T2 by simp
  qed
  then obtain st' c' where
      r: "stereo_loop data ?n (i + 2) (st2, c1) = Inr (st', c')"
      and run: "stereo_run (drop (nat (i + 2)) data) st2 st'"
      and rest: "\<forall>k. k < NUM_BANDS \<longrightarrow>
                 (\<exists>s. dual_mono_pairs (drop (nat (i + 2)) data) (bands st2 k, temporal_sum st2 k)
                        = Inr (bands st' k, s))"
    by blast
  have "stereo_loop data ?n i (st, c) = Inr (st', c')"
    using step r by simp
  moreover have "stereo_run (drop (nat i) data) st st'"
    unfolding dr using acc run unfolding st2_def by (rule stereo_run_pair)
  moreover have "\<forall>k. k < NUM_BANDS \<longrightarrow>
      (\<exists>s. dual_mono_pairs (drop (nat i) data) (bands st k, temporal_sum st k)
             = Inr (bands st' k, s))"
  proof (intro allI impI)
    fix k assume k: "k < NUM_BANDS"
    obtain s where d: "dual_mono_pairs (drop (nat (i + 2)) data) (bands st2 k, temporal_sum st2 k)
        = Inr (bands st' k, s)"
      using rest k by blast
    have "fst (bs k, ts k) = fst (bands st2 k, temporal_sum st2 k)"
      by (simp add: st2_def window_check_frame st1c_def st1_def)
    from dual_mono_pairs_band [OF d this]
    obtain t where "dual_mono_pairs (drop (nat (i + 2)) data) (bs k, ts k) = Inr (bands st' k, t)"
      by auto
    then have "dual_mono_pairs (drop (nat i) data) (bands st k, temporal_sum st k)
        = Inr (bands st' k, t)"
      using pair k by (simp add: dr)
    then show "\<exists>s. dual_mono_pairs (drop (nat i) data) (bands st k, temporal_sum st k)
        = Inr (bands st' k, s)" by blast
  qed
  ultimately show ?case by blast
qed

section \<open>The published levels under processing\<close>

lemma calculateLevel_keeps_zero:
  "levels_zero st \<Longrightarrow> levels_zero (calculateLevel st)"
  unfolding levels_zero_def using calculateLevel_levels_zero by blast

lemma advance_count_keeps_zero:
  assumes "advance_count k acc = Inr acc'" "levels_zero (fst acc)"
  shows "levels_zero (fst acc')"
proof -
  have z: "levels_zero ((fst acc)\<lparr>samplesCount := samplesCount (fst acc) + k\<rparr>)"
    using assms(2) by (simp add: levels_zero_def)
  show ?thesis
    using assms(1) z calculateLevel_keeps_zero [OF z]
    by (auto simp: advance_count_def Let_def split: if_splits)
qed

lemma mono_loop_keeps_zero:
  "mono_loop data n i acc = Inr acc' \<Longrightarrow> levels_zero (fst acc) \<Longrightarrow> levels_zero (fst acc')"
proof (induction data n i acc rule: mono_loop.induct)
  case (1 data n i acc)
  show ?case
  proof (cases "i < n")
    case False
    then have "mono_loop data n i acc = Inr acc" by (rule mono_loop_done)
    then show ?thesis using "1.prems" by simp
  next
    case True
    from "1.prems"(1) True obtain x st1 acc1 where
        rd: "read_sample data i = Inr x"
        and f: "foldE (accumulate_band x) [0..<NUM_BANDS] (fst acc) = Inr st1"
        and adv: "advance_count 1 (st1, snd acc) = Inr acc1"
        and ov: "\<not> i + 2 > INT_MAX"
        and rest: "mono_loop data n (i + 2) acc1 = Inr acc'"
      by (subst (asm) mono_loop.simps) (auto split: sum.splits if_splits)
    have "levels_zero st1"
      using accumulate_bands_frame [OF f] "1.prems"(2) by (simp add: levels_zero_def)
    then have "levels_zero (fst acc1)"
      using advance_count_keeps_zero [OF adv] by simp
    then show ?thesis
      using "1.IH" [OF True rd f adv ov rest] by simp
  qed
qed

lemma stereo_loop_keeps_zero:
  "stereo_loop data n i acc = Inr acc' \<Longrightarrow> levels_zero (fst acc) \<Longrightarrow> levels_zero (fst acc')"
proof (induction data n i acc rule: stereo_loop.induct)
  case (1 data n i acc)
  show ?case
  proof (cases "i < n")
    case False
    then have "stereo_loop data n i acc = Inr acc" by (rule stereo_loop_done)
    then show ?thesis using "1.prems" by simp
  next
    case True
    from "1.prems"(1) True obtain l r st1 acc1 where
        rd: "read_sample data i = Inr l"
        and rd1: "read_sample data (i + 1) = Inr r"
        and f: "foldE (accumulate_band_stereo l r) [0..<NUM_BANDS] (fst acc) = Inr st1"
        and adv: "advance_count 2 (st1, snd acc) = Inr acc1"
        and ov: "\<not> i + 2 > INT_MAX"
        and rest: "stereo_loop data n (i + 2) acc1 = Inr acc'"
      by (subst (asm) stereo_loop.simps) (auto split: sum.splits if_splits)
    have "levels_zero st1"
      using accumulate_bands_stereo_frame [OF f] "1.prems"(2) by (simp add: levels_zero_def)
    then have "levels_zero (fst acc1)"
      using advance_count_keeps_zero [OF adv] by simp
    then show ?thesis
      using "1.IH" [OF True rd rd1 f adv ov rest] by simp
  qed
qed

lemma process_bank_keeps_zero:
  assumes "process_bank st data n = Inr (st', calls)" "levels_zero st"
  shows "levels_zero st'"
proof -
  consider (idle) "st' = st"
    | (mono) i where "mono_loop data n i (st, 0) = Inr (st', calls)"
    | (stereo) "stereo_loop data n 0 (st, 0) = Inr (st', calls)"
    using assms(1) by (auto simp: process_bank_def Let_def split: if_splits)
  then show ?thesis
  proof cases
    case idle
    then show ?thesis using assms(2) by simp
  next
    case mono
    then show ?thesis using mono_loop_keeps_zero assms(2) by fastforce
  next
    case stereo
    then show ?thesis using stereo_loop_keeps_zero assms(2) by fastforce
  qed
qed

lemma process_calls_keep_zero:
  "process_calls (Some st) calls = Inr p \<Longrightarrow> levels_zero st \<Longrightarrow>
     \<exists>st'. p = Some st' \<and> levels_zero st'"
proof (induction calls arbitrary: st)
  case Nil
  then show ?case by auto
next
  case (Cons call calls)
  obtain bp mode data n where call: "call = (bp, mode, data, n)"
    by (cases call) auto
  from Cons.prems(1) obtain st1 k where
      p: "process_bank (configure bp mode st) data n = Inr (st1, k)"
      and rest: "process_calls (Some st1) calls = Inr p"
    by (auto simp: call third_octave_filter_process_def split: sum.splits)
  have "levels_zero (configure bp mode st)"
    using Cons.prems(2) by (simp add: levels_zero_def configure_def)
  then have "levels_zero st1"
    using process_bank_keeps_zero [OF p] by simp
  then show ?case
    using Cons.IH [OF rest] by simp
qed

section \<open>The bank after a successful allocation\<close>

lemma alloc_shape:
  assumes blk: "(case p of None \<Rightarrow> m | Some st \<Rightarrow> Some st) = Some st0"
    and order: "order \<noteq> 4"
  shows "\<exists>st. third_octave_filter_alloc p m rate order
             = (case float_to_uint64 (window_samples rate 125) of
                  Inl e \<Rightarrow> Inl e
                | Inr T \<Rightarrow> Inr (Some (st\<lparr>maxNumberOfSamples := T\<rparr>)))
           \<and> bypass st = 1 \<and> channelType st = LEFT_CHANNEL \<and> samplesCount st = 0
           \<and> integrationTime st = 125 \<and> sample_rate st = rate \<and> mic_constant st = 120
           \<and> filter_order st = 2 \<and> alpha st = alpha st0
           \<and> (\<forall>k. k < NUM_BANDS \<longrightarrow> num_sections (bands st k) = 2)
           \<and> (\<forall>k. k < NUM_BANDS \<longrightarrow> temporal_sum st k = 0 \<and> volume_level st k = 0
                  \<and> smoothed_level st k = 0)"
proof -
  define st1 where "st1 = st0\<lparr>bypass := 1, sample_rate := rate, filter_order := 2,
                       initialized := 0, channelType := LEFT_CHANNEL\<rparr>"
  obtain bs where i: "initializeFilterBank (bands st1) 2 = Inr bs"
      and nbs: "\<forall>k. k < NUM_BANDS \<longrightarrow> num_sections (bs k) = 2"
    using initializeFilterBank_order2 [of "bands st1"] by blast
  have "\<forall>k. k < NUM_BANDS \<longrightarrow> num_sections (bands (st1\<lparr>bands := bs\<rparr>) k) \<le> 2"
    using nbs by simp
  from resetFilterState_ok [OF this]
  obtain bs' where r: "resetFilterState (st1\<lparr>bands := bs\<rparr>) = Inr (st1\<lparr>bands := bs', initialized := 1\<rparr>)"
      and nbs': "\<forall>k. num_sections (bs' k) = num_sections (bs k)"
    by auto
  define st3 where "st3 = st1\<lparr>bands := bs', initialized := 1, mic_constant := 120,
                       integrationTime := 125, samplesCount := 0\<rparr>"
  obtain ts vs ss where
      z: "fold zero_band_levels [0..<NUM_BANDS] st3
            = st3\<lparr>temporal_sum := ts, volume_level := vs, smoothed_level := ss\<rparr>"
      and zs: "\<forall>k. k < NUM_BANDS \<longrightarrow> ts k = 0 \<and> vs k = 0 \<and> ss k = 0"
    using zero_band_levels_fold [of NUM_BANDS st3] by blast
  define st4 where "st4 = st3\<lparr>temporal_sum := ts, volume_level := vs, smoothed_level := ss\<rparr>"
  have fo: "(if order = 2 \<or> order = 4 then order else 2) = 2"
    using order by simp
  have "third_octave_filter_alloc p m rate order
          = (case float_to_uint64 (window_samples rate 125) of
                  Inl e \<Rightarrow> Inl e
                | Inr T \<Rightarrow> Inr (Some (st4\<lparr>maxNumberOfSamples := T\<rparr>)))"
    unfolding third_octave_filter_alloc_def blk
    using i r z
    by (simp add: fo Let_def st1_def st3_def st4_def calculateSamplesIntegration_def
        split: sum.splits)
  then show ?thesis
    using nbs nbs' zs by (intro exI [of _ st4]) (simp add: st4_def st3_def st1_def)
qed

lemma alloc_order4:
  "third_octave_filter_alloc p m rate 4 = Inl NullPointerDereference
   \<or> third_octave_filter_alloc p m rate 4 = Inl (SectionIndexOutOfBounds 2)"
  by (simp add: third_octave_filter_alloc_def initializeFilterBank_order4 Let_def
      split: option.splits)

lemma alloc_facts:
  assumes "third_octave_filter_alloc p m rate order = Inr (Some st)"
  shows "bypass st = 1" "channelType st = LEFT_CHANNEL" "samplesCount st = 0"
    "integrationTime st = 125"
    "float_to_uint64 (window_samples rate 125) = Inr (maxNumberOfSamples st)"
    "sections_fit st" "levels_zero st"
proof -
  have order: "order \<noteq> 4"
    using assms alloc_order4 [of p m rate] by auto
  obtain st0 where blk: "(case p of None \<Rightarrow> m | Some st \<Rightarrow> Some st) = Some st0"
    using assms by (cases "case p of None \<Rightarrow> m | Some st \<Rightarrow> Some st")
      (auto simp: third_octave_filter_alloc_def)
  from alloc_shape [OF blk order, of rate]
  obtain sta where a: "third_octave_filter_alloc p m rate order
             = (case float_to_uint64 (window_samples rate 125) of
                  Inl e \<Rightarrow> Inl e
                | Inr T \<Rightarrow> Inr (Some (sta\<lparr>maxNumberOfSamples := T\<rparr>)))"
      and f: "bypass sta = 1" "channelType sta = LEFT_CHANNEL" "samplesCount sta = 0"
        "integrationTime sta = 125"
        "\<forall>k. k < NUM_BANDS \<longrightarrow> num_sections (bands sta k) = 2"
        "\<forall>k. k < NUM_BANDS \<longrightarrow> temporal_sum sta k = 0 \<and> volume_level sta k = 0
                  \<and> smoothed_level sta k = 0"
    by blast
  from assms a obtain T where T: "float_to_uint64 (window_samples rate 125) = Inr T"
      and st: "st = sta\<lparr>maxNumberOfSamples := T\<rparr>"
    by (auto split: sum.splits)
  show "bypass st = 1" "channelType st = LEFT_CHANNEL" "samplesCount st = 0"
    "integrationTime st = 125"
    using f by (simp_all add: st)
  show "float_to_uint64 (window_samples rate 125) = Inr (maxNumberOfSamples st)"
    using T by (simp add: st)
  show "sections_fit st" using f(5) by (simp add: sections_fit_def st)
  show "levels_zero st" using f(6) by (simp add: levels_zero_def st)
qed

lemma alloc_zero_block:
  "\<exists>st. third_octave_filter_alloc None (Some zero_block) 48000 2 = Inr (Some st)
     \<and> maxNumberOfSamples st = 6000"
proof -
  have blk: "(case None of None \<Rightarrow> Some zero_block | Some st \<Rightarrow> Some st) = Some zero_block"
    by simp
  have v: "float_to_uint64 (window_samples 48000 125) = Inr 6000"
    by (simp add: window_samples_48000 float_to_uint64_def)
  from alloc_shape [OF blk, of 2 48000] show ?thesis
    by (auto simp: v)
qed

section \<open>The claims\<close>

text \<open>
  C10. For every section state and every input \<open>x\<close>, \<open>processBiquad\<close> returns
  \<open>y = b0 * x + z0\<close> and leaves the delay line at \<open>z0' = b1 * x - a1 * y + z1\<close>
  and \<open>z1' = b2 * x - a2 * y\<close>, where \<open>z0\<close> and \<open>z1\<close> are the delay values before
  the call; the coefficients are unchanged, and the function has no failing branch.
\<close>

theorem processBiquad_recurrence:
  "processBiquad s x =
     (b0 s * x + z0 s,
      \<lparr>b0 = b0 s, b1 = b1 s, b2 = b2 s, a0 = a0 s, a1 = a1 s, a2 = a2 s,
       z0 = b1 s * x - a1 s * (b0 s * x + z0 s) + z1 s,
       z1 = b2 s * x - a2 s * (b0 s * x + z0 s)\<rparr>)"
  by (cases s) (simp add: processBiquad_def Let_def)

text \<open>
  C1. The claim: at a window boundary the reduction runs for each of the 31 bands, so every
  band has its sum reset and its level published. What \<open>calculateLevel\<close> does: the
  body of band 0 sets \<open>samplesCount\<close> to zero, so the test \<open>samplesCount > 0\<close> fails
  for every later band. For every state and every band other than band 0, the band's sum,
  its published level and its smoothed level are what they were before the call.
\<close>

theorem calculateLevel_leaves_other_bands:
  "0 < band \<Longrightarrow>
     temporal_sum (calculateLevel st) band = temporal_sum st band
     \<and> volume_level (calculateLevel st) band = volume_level st band
     \<and> smoothed_level (calculateLevel st) band = smoothed_level st band"
  using calculateLevel_other_bands [of band st] by simp

text \<open>
  C1, at a boundary with 6000 samples counted and a sum of 3 in every band: after
  \<open>calculateLevel\<close> the sum of band 1 is still 3, and the sum of band 0 is 0.
\<close>

theorem calculateLevel_leaves_other_bands_witness:
  "(0::nat) < 1
   \<and> temporal_sum (calculateLevel (zero_block\<lparr>samplesCount := 6000, maxNumberOfSamples := 6000,
        temporal_sum := (\<lambda>band. 3)\<rparr>)) 1 = 3
   \<and> temporal_sum (calculateLevel (zero_block\<lparr>samplesCount := 6000, maxNumberOfSamples := 6000,
        temporal_sum := (\<lambda>band. 3)\<rparr>)) 0 = 0"
  using calculateLevel_leaves_other_bands [of 1 "zero_block\<lparr>samplesCount := 6000,
      maxNumberOfSamples := 6000, temporal_sum := (\<lambda>band. 3)\<rparr>"]
    calculateLevel_band0_reset [of "zero_block\<lparr>samplesCount := 6000,
      maxNumberOfSamples := 6000, temporal_sum := (\<lambda>band. 3)\<rparr>"]
  by simp

text \<open>
  C2. The claim: on the first update of a band the smoothed value is initialised from the
  level \<open>level_db\<close> computed in that update. What \<open>calculateLevel\<close> does for band 0
  when samples have been counted and the smoothed value is still zero: the smoothed
  value and the published level both become the previously published level;
  \<open>level_db\<close> is computed and stored nowhere.
\<close>

theorem first_update_takes_published_level:
  "0 < samplesCount st \<Longrightarrow> smoothed_level st 0 = 0 \<Longrightarrow>
     smoothed_level (calculateLevel st) 0 = volume_level st 0
     \<and> volume_level (calculateLevel st) 0 = volume_level st 0"
  by (simp add: calculateLevel_band0 calculateLevel_band_def Let_def)

text \<open>
  C2, at a first update with one sample counted, a sum of 1 and the calibration constant
  120: \<open>level_db\<close> is 120, and the smoothed and the published level of band 0 are 0
  after the update.
\<close>

theorem first_update_takes_published_level_witness:
  "level_db_of (zero_block\<lparr>samplesCount := 1, mic_constant := 120,
        temporal_sum := (\<lambda>band. 1)\<rparr>) 0 = 120
   \<and> smoothed_level (calculateLevel (zero_block\<lparr>samplesCount := 1, mic_constant := 120,
        temporal_sum := (\<lambda>band. 1)\<rparr>)) 0 = 0
   \<and> volume_level (calculateLevel (zero_block\<lparr>samplesCount := 1, mic_constant := 120,
        temporal_sum := (\<lambda>band. 1)\<rparr>)) 0 = 0"
  using first_update_takes_published_level [of "zero_block\<lparr>samplesCount := 1,
      mic_constant := 120, temporal_sum := (\<lambda>band. 1)\<rparr>"]
  by (simp add: level_db_of_def rms_of_def zero_block_def)

text \<open>
  C3. The claim: order 2 gives one section per band and order 4 gives two. What
  \<open>initializeFilterBank\<close> does: for order 2 it succeeds and leaves
  \<open>num_sections = 2\<close> in each of the 31 bands; for order 4 the block of each band
  assigns \<open>num_sections = 4\<close> and writes four sections.
\<close>

theorem installed_section_counts:
  "band < NUM_BANDS \<Longrightarrow>
     (\<exists>bs'. initializeFilterBank bs 2 = Inr bs' \<and> num_sections (bs' band) = 2)
     \<and> four_rows (coefficients_order4 ! band)"
proof -
  assume b: "band < NUM_BANDS"
  have "four_rows (coefficients_order4 ! band)"
    using order4_four_rows b by (simp add: list_all_length order4_length NUM_BANDS_def)
  then show ?thesis
    using initializeFilterBank_order2 [of bs] b by blast
qed

text \<open>C3, for band 0 of the zero block.\<close>

theorem installed_section_counts_witness:
  "(0::nat) < NUM_BANDS
   \<and> (\<exists>bs'. initializeFilterBank (bands zero_block) 2 = Inr bs' \<and> num_sections (bs' 0) = 2)
   \<and> four_rows (coefficients_order4 ! 0)"
  using installed_section_counts [of 0 "bands zero_block"] by (simp add: NUM_BANDS_def)

text \<open>
  C4. The claim: for both orders every index into \<open>sections\<close> is below the declared
  length 2. What the allocation with order 4 does, for every sample rate, on a fresh block
  and on a bank allocated before: the installation of band 0 writes \<open>sections[2]\<close>,
  the first index outside the array.
\<close>

theorem alloc_order4_out_of_bounds:
  "third_octave_filter_alloc None (Some block) rate 4 = Inl (SectionIndexOutOfBounds 2)
   \<and> third_octave_filter_alloc (Some st) malloc_result rate 4 = Inl (SectionIndexOutOfBounds 2)"
  by (simp add: third_octave_filter_alloc_def initializeFilterBank_order4 Let_def)

text \<open>
  C5. The claim: a call of \<open>third_octave_filter_process\<close> on an unallocated bank
  fails with a defined "not initialized" condition. What the function does when
  \<open>pFilterBank\<close> is null, before any allocation or after
  \<open>third_octave_filter_free\<close>: it dereferences the pointer.
\<close>

theorem process_unallocated:
  "third_octave_filter_process None data buffer_size = Inl NullPointerDereference
   \<and> third_octave_filter_process (third_octave_filter_free p) data buffer_size
       = Inl NullPointerDereference"
  by (simp add: third_octave_filter_process_def third_octave_filter_free_def split: option.splits)

lemma process_one_left_sample:
  assumes "third_octave_filter_alloc None (Some zero_block) 48000 2 = Inr (Some st0)"
  shows "\<exists>st. process_bank (configure 0 LEFT_CHANNEL st0) [1, 0] 2 = Inr (st, 0)"
proof -
  let ?st = "configure 0 LEFT_CHANNEL st0"
  have T: "maxNumberOfSamples st0 = 6000"
    using alloc_zero_block assms by auto
  have "\<exists>bs ts. mono_loop [1, 0] 2 0 (?st, 0)
             = Inr (?st\<lparr>bands := bs, temporal_sum := ts, samplesCount := samplesCount ?st + int 1\<rparr>, 0)
           \<and> (\<forall>k. num_sections (bs k) = num_sections (bands ?st k))"
    using alloc_facts [OF assms] T
    by (intro mono_loop_quiet) (simp_all add: sections_fit_def INT_MAX_def configure_def)
  then show ?thesis
    by (auto simp: process_bank_def LEFT_CHANNEL_def configure_def)
qed

text \<open>
  C6. After a successful allocation, and after any sequence of calls of
  \<open>third_octave_filter_process\<close> that returns, each call on any buffer and with any
  bypass value and any channel mode configured before it: the bank is still allocated,
  and for every band the published level equals the smoothed level, and both are zero.
\<close>

theorem published_levels_stay_zero:
  assumes "third_octave_filter_alloc p m rate order = Inr (Some st0)"
    and "process_calls (Some st0) calls = Inr p'"
  shows "\<exists>st. p' = Some st
           \<and> (\<forall>band. band < NUM_BANDS \<longrightarrow>
                 volume_level st band = smoothed_level st band
                 \<and> volume_level st band = 0 \<and> smoothed_level st band = 0)"
proof -
  have "levels_zero st0" using alloc_facts(7) [OF assms(1)] .
  from process_calls_keep_zero [OF assms(2) this]
  show ?thesis by (auto simp: levels_zero_def)
qed

text \<open>
  C6, for the bank allocated at 48000 Hz with order 2 and two calls: one in left mode
  with the bypass cleared, which processes one left sample of value 1, and one with the
  bypass set.
\<close>

theorem published_levels_stay_zero_witness:
  "\<exists>st0 st. third_octave_filter_alloc None (Some zero_block) 48000 2 = Inr (Some st0)
     \<and> process_calls (Some st0) [(0, LEFT_CHANNEL, [1, 0], 2), (1, STEREO_CHANNEL, [5, 6], 2)]
         = Inr (Some st)
     \<and> volume_level st 0 = 0 \<and> smoothed_level st 0 = 0"
proof -
  obtain st0 where a: "third_octave_filter_alloc None (Some zero_block) 48000 2 = Inr (Some st0)"
    using alloc_zero_block by blast
  obtain st where p: "process_bank (configure 0 LEFT_CHANNEL st0) [1, 0] 2 = Inr (st, 0)"
    using process_one_left_sample [OF a] by blast
  have q: "process_bank (configure 1 STEREO_CHANNEL st) [5, 6] 2
      = Inr (configure 1 STEREO_CHANNEL st, 0)"
    by (simp add: process_bank_def configure_def)
  have c: "process_calls (Some st0) [(0, LEFT_CHANNEL, [1, 0], 2), (1, STEREO_CHANNEL, [5, 6], 2)]
      = Inr (Some (configure 1 STEREO_CHANNEL st))"
    by (simp add: third_octave_filter_process_def p q)
  from published_levels_stay_zero [OF a c]
  have "volume_level (configure 1 STEREO_CHANNEL st) 0 = 0
      \<and> smoothed_level (configure 1 STEREO_CHANNEL st) 0 = 0"
    by (simp add: NUM_BANDS_def)
  then show ?thesis using a c by blast
qed

text \<open>
  C7 as stated fails when a window boundary falls inside the buffer: on the bank
  allocated at 48000 Hz with order 2 (threshold 6000), in stereo mode with bypass
  cleared, 3000 pairs leave \<open>samplesCount\<close> at 0, not at 6000.
\<close>

theorem stereo_count_reset_counterexample:
  "samplesCount_after
     (alloc_configure_process 48000 2 0 STEREO_CHANNEL (replicate 6000 1) 6000) = Some 0"
proof -
  obtain st0 where a: "third_octave_filter_alloc None (Some zero_block) 48000 2 = Inr (Some st0)"
      and T: "maxNumberOfSamples st0 = 6000"
    using alloc_zero_block by blast
  let ?st = "st0\<lparr>bypass := 0, channelType := STEREO_CHANNEL\<rparr>"
  let ?data = "replicate 6000 (1::real)"
  have "\<exists>st'. stereo_loop ?data (int (length ?data)) 0 (?st, 0) = Inr (st', Suc 0)
           \<and> samplesCount st' = 0"
    using alloc_facts [OF a] T
    by (intro stereo_loop_boundary [where m = 2999])
       (simp_all add: sections_fit_def INT_MAX_def)
  then obtain st' where l: "stereo_loop ?data 6000 0 (?st, 0) = Inr (st', Suc 0)"
      and c: "samplesCount st' = 0"
    by auto
  have "process_bank ?st ?data 6000 = Inr (st', Suc 0)"
    using l by (simp add: process_bank_def LEFT_CHANNEL_def RIGHT_CHANNEL_def STEREO_CHANNEL_def)
  then show ?thesis
    using a c by (simp add: alloc_configure_process_def samplesCount_after_def configure_def)
qed

text \<open>
  C7, amended. In stereo mode with bypass off, on a bank whose section counts fit the
  array, a buffer of \<open>N\<close> interleaved pairs is processed without error, and:
  the call is a run of pairs (\<open>stereo_run\<close>) in which every pair sends its left and
  then its right sample through each of the 31 bands' own filter state, adds both squared
  outputs to that band's sum and advances \<open>samplesCount\<close> by exactly 2, the
  window-boundary check following each pair; every band ends in the filter state that
  left then right of each pair of the whole buffer through that one band gives
  (\<open>dual_mono_pairs\<close>), whether or not a boundary falls inside the buffer; and when no
  boundary is reached (\<open>samplesCount + 2N\<close> stays below the threshold), no level
  reduction runs, \<open>samplesCount\<close> has advanced by exactly \<open>2N\<close>, and every band's sum
  is the one \<open>dual_mono_pairs\<close> gives.
\<close>

theorem stereo_dual_mono_window:
  assumes "bypass st \<noteq> 1" and "channelType st = STEREO_CHANNEL" and "sections_fit st"
    and "length data = 2 * N" and "int (length data) < INT_MAX"
    and "0 \<le> samplesCount st" and "samplesCount st + 2 \<le> INT_MAX"
    and "int (maxNumberOfSamples st) < INT_MAX"
  shows "\<exists>st' calls. process_bank st data (int (length data)) = Inr (st', calls)
           \<and> stereo_run data st st'
           \<and> (\<forall>band. band < NUM_BANDS \<longrightarrow>
                 (\<exists>s. dual_mono_pairs data (bands st band, temporal_sum st band)
                        = Inr (bands st' band, s)))
           \<and> (samplesCount st + 2 * int N < int (maxNumberOfSamples st) \<longrightarrow>
                 calls = 0
                 \<and> samplesCount st' = samplesCount st + 2 * int N
                 \<and> (\<forall>band. band < NUM_BANDS \<longrightarrow>
                       dual_mono_pairs data (bands st band, temporal_sum st band)
                         = Inr (bands st' band, temporal_sum st' band)))"
proof -
  have len: "int (length data) = 0 + 2 * int N" using assms(4) by simp
  have zero: "(0::int) \<le> 0" by simp
  from stereo_loop_run [OF len assms(3) assms(6) assms(7) zero assms(5) assms(8), of 0]
  obtain st' calls where
      l: "stereo_loop data (int (length data)) 0 (st, 0) = Inr (st', calls)"
      and run: "stereo_run (drop (nat 0) data) st st'"
      and bandstate: "\<forall>k. k < NUM_BANDS \<longrightarrow>
                 (\<exists>s. dual_mono_pairs (drop (nat 0) data) (bands st k, temporal_sum st k)
                        = Inr (bands st' k, s))"
    by blast
  have p: "process_bank st data (int (length data)) = Inr (st', calls)"
    using l assms(1,2)
    by (simp add: process_bank_def LEFT_CHANNEL_def RIGHT_CHANNEL_def STEREO_CHANNEL_def)
  have quiet: "calls = 0 \<and> samplesCount st' = samplesCount st + 2 * int N
      \<and> (\<forall>band. band < NUM_BANDS \<longrightarrow>
            dual_mono_pairs data (bands st band, temporal_sum st band)
              = Inr (bands st' band, temporal_sum st' band))"
    if q: "samplesCount st + 2 * int N < int (maxNumberOfSamples st)"
  proof -
    have T: "int (maxNumberOfSamples st) \<le> INT_MAX" using assms(8) by simp
    from stereo_loop_quiet [OF len assms(3) assms(6) zero assms(5) q T, of 0]
    obtain bs ts where
        l2: "stereo_loop data (int (length data)) 0 (st, 0)
               = Inr (st\<lparr>bands := bs, temporal_sum := ts,
                         samplesCount := samplesCount st + 2 * int N\<rparr>, 0)"
        and pairs: "\<forall>k. k < NUM_BANDS \<longrightarrow>
                   dual_mono_pairs (drop (nat 0) data) (bands st k, temporal_sum st k)
                     = Inr (bs k, ts k)"
      by auto
    have "st' = st\<lparr>bands := bs, temporal_sum := ts, samplesCount := samplesCount st + 2 * int N\<rparr>"
        and "calls = 0"
      using l l2 by simp_all
    then show ?thesis using pairs by simp
  qed
  show ?thesis
    using p run bandstate quiet by (intro exI [of _ st'] exI [of _ calls]) simp
qed

text \<open>
  C7, for the bank allocated at 48000 Hz with order 2: the two pairs \<open>(1, 2)\<close>,
  \<open>(3, 4)\<close>, inside the first window, and 3000 pairs, which end on a window boundary.
\<close>

theorem stereo_dual_mono_window_witness:
  "\<exists>st0 st' st'' calls.
     third_octave_filter_alloc None (Some zero_block) 48000 2 = Inr (Some st0)
     \<and> process_bank (configure 0 STEREO_CHANNEL st0) [1, 2, 3, 4] 4 = Inr (st', 0)
     \<and> stereo_run [1, 2, 3, 4] (configure 0 STEREO_CHANNEL st0) st'
     \<and> samplesCount st' = 4
     \<and> dual_mono_pairs [1, 2, 3, 4] (bands st0 0, temporal_sum st0 0)
         = Inr (bands st' 0, temporal_sum st' 0)
     \<and> process_bank (configure 0 STEREO_CHANNEL st0) (replicate 6000 1) 6000 = Inr (st'', calls)
     \<and> stereo_run (replicate 6000 1) (configure 0 STEREO_CHANNEL st0) st''"
proof -
  obtain st0 where a: "third_octave_filter_alloc None (Some zero_block) 48000 2 = Inr (Some st0)"
      and T: "maxNumberOfSamples st0 = 6000"
    using alloc_zero_block by blast
  let ?st = "configure 0 STEREO_CHANNEL st0"
  note f = alloc_facts [OF a]
  have h: "bypass ?st \<noteq> 1" "channelType ?st = STEREO_CHANNEL" "sections_fit ?st"
      "0 \<le> samplesCount ?st" "samplesCount ?st + 2 \<le> INT_MAX"
      "int (maxNumberOfSamples ?st) < INT_MAX"
    using f T by (simp_all add: configure_def sections_fit_def INT_MAX_def)
  have l1: "length [1, 2, 3, 4 :: real] = 2 * 2" "int (length [1, 2, 3, 4 :: real]) < INT_MAX"
    by (simp_all add: INT_MAX_def)
  have l2: "length (replicate 6000 (1::real)) = 2 * 3000"
      "int (length (replicate 6000 (1::real))) < INT_MAX"
    by (simp_all add: INT_MAX_def)
  from stereo_dual_mono_window [OF h(1,2,3) l1 h(4,5,6)]
  obtain st' c1 where
      p1: "process_bank ?st [1, 2, 3, 4] (int (length [1, 2, 3, 4 :: real])) = Inr (st', c1)"
      and r1: "stereo_run [1, 2, 3, 4] ?st st'"
      and q1: "samplesCount ?st + 2 * int 2 < int (maxNumberOfSamples ?st) \<longrightarrow>
                 c1 = 0
                 \<and> samplesCount st' = samplesCount ?st + 2 * int 2
                 \<and> (\<forall>band. band < NUM_BANDS \<longrightarrow>
                       dual_mono_pairs [1, 2, 3, 4] (bands ?st band, temporal_sum ?st band)
                         = Inr (bands st' band, temporal_sum st' band))"
    by blast
  have small: "samplesCount ?st + 2 * int 2 < int (maxNumberOfSamples ?st)"
    using f T by (simp add: configure_def)
  from q1 small have c1: "c1 = 0" and cnt: "samplesCount st' = 4"
      and b0: "dual_mono_pairs [1, 2, 3, 4] (bands ?st 0, temporal_sum ?st 0)
                 = Inr (bands st' 0, temporal_sum st' 0)"
    using f(3) by (simp_all add: configure_def NUM_BANDS_def)
  from stereo_dual_mono_window [OF h(1,2,3) l2 h(4,5,6)]
  obtain st'' c2 where
      p2: "process_bank ?st (replicate 6000 1) (int (length (replicate 6000 (1::real))))
             = Inr (st'', c2)"
      and r2: "stereo_run (replicate 6000 1) ?st st''"
    by blast
  show ?thesis
    using a p1 r1 cnt b0 p2 r2 c1
    by (intro exI [of _ st0] exI [of _ st'] exI [of _ st''] exI [of _ c2])
       (simp add: configure_def)
qed

text \<open>
  C8 as stated fails in both halves. The threshold is not the floor of the product in
  real arithmetic: at 2008 Hz allocation stores 250, while
  \<open>floor (2008 / 1000 * 125) = 251\<close>. And allocation enables the bypass, so 6000
  left-channel samples fed right after it trigger no level reduction.
\<close>

theorem threshold_and_bypass_counterexample:
  "threshold_after (third_octave_filter_alloc None (Some zero_block) 2008 2) = Some 250
   \<and> \<lfloor>(2008::real) / 1000 * 125\<rfloor> = 251
   \<and> calls_after (alloc_process 48000 2 (replicate 12000 1) 12000) = Some 0"
proof -
  have blk: "(case None of None \<Rightarrow> Some zero_block | Some st \<Rightarrow> Some st) = Some zero_block"
    by simp
  have "\<lfloor>(16449535::real) / 2 ^ 16\<rfloor> = 250"
    by (simp add: floor_eq_iff)
  then have v: "float_to_uint64 (window_samples 2008 125) = Inr 250"
    by (simp add: window_samples_2008 float_to_uint64_def)
  have t: "threshold_after (third_octave_filter_alloc None (Some zero_block) 2008 2) = Some 250"
    using alloc_shape [OF blk, of 2 2008] by (auto simp: v threshold_after_def)
  have fl: "\<lfloor>(2008::real) / 1000 * 125\<rfloor> = 251"
    by (simp add: floor_eq_iff)
  obtain st0 where a: "third_octave_filter_alloc None (Some zero_block) 48000 2 = Inr (Some st0)"
    using alloc_zero_block by blast
  have "process_bank st0 (replicate 12000 1) 12000 = Inr (st0, 0)"
    using alloc_facts(1) [OF a] by (simp add: process_bank_def)
  then have "calls_after (alloc_process 48000 2 (replicate 12000 1) 12000) = Some 0"
    using a by (simp add: alloc_process_def calls_after_def)
  then show ?thesis using t fl by simp
qed

text \<open>
  C8, amended. After a successful allocation with a non-negative sample rate the
  integration time is 125 and the threshold is the floor of the single-precision value of
  \<open>(sample_rate / 1000) * 125\<close>, the quotient and the product each rounded to
  \<open>float\<close>; it is \<open>floor (sample_rate / 1000 * 125)\<close> whenever neither rounding
  changes its operand. At 48000 Hz it is exactly 6000, and once the bypass is disabled,
  a buffer with exactly 6000 left-channel samples triggers exactly one level reduction,
  after which \<open>samplesCount\<close> and the sum of band 0 are zero.
\<close>

theorem integration_threshold:
  assumes "third_octave_filter_alloc p m rate order = Inr (Some st)" and "0 \<le> rate"
  shows "integrationTime st = 125
     \<and> int (maxNumberOfSamples st) = \<lfloor>float32 (float32 (rate / 1000) * 125)\<rfloor>
     \<and> (float32 (rate / 1000) = rate / 1000
          \<and> float32 (rate / 1000 * 125) = rate / 1000 * 125 \<longrightarrow>
          int (maxNumberOfSamples st) = \<lfloor>rate / 1000 * 125\<rfloor>)
     \<and> (rate = 48000 \<longrightarrow>
          maxNumberOfSamples st = 6000
          \<and> (\<forall>data n bp. bp \<noteq> 1 \<and> (n + 1) div 2 = 6000 \<and> n \<le> int (length data) \<longrightarrow>
                (\<exists>st'. process_bank (st\<lparr>bypass := bp\<rparr>) data n = Inr (st', 1)
                   \<and> samplesCount st' = 0 \<and> temporal_sum st' 0 = 0)))"
proof -
  note f = alloc_facts [OF assms(1)]
  have w: "window_samples rate 125 = float32 (float32 (rate / 1000) * 125)"
    by (simp add: window_samples_def float32_125)
  have v: "0 \<le> window_samples rate 125"
    using assms(2) by (rule window_samples_nonneg)
  have "maxNumberOfSamples st = nat \<lfloor>window_samples rate 125\<rfloor>"
    using f(5) v unfolding float_to_uint64_def by (simp split: if_splits)
  moreover have "0 \<le> \<lfloor>window_samples rate 125\<rfloor>"
    using v by (simp only: zero_le_floor)
  ultimately have "int (maxNumberOfSamples st) = \<lfloor>window_samples rate 125\<rfloor>"
    by (simp only: int_nat_eq if_True)
  then have T: "int (maxNumberOfSamples st) = \<lfloor>float32 (float32 (rate / 1000) * 125)\<rfloor>"
    by (simp only: w)
  have exact: "int (maxNumberOfSamples st) = \<lfloor>rate / 1000 * 125\<rfloor>"
    if e: "float32 (rate / 1000) = rate / 1000 \<and> float32 (rate / 1000 * 125) = rate / 1000 * 125"
  proof -
    have "float32 (float32 (rate / 1000) * 125) = rate / 1000 * 125"
      using e by (simp only:)
    then show ?thesis using T by (simp only:)
  qed
  have T6: "maxNumberOfSamples st = 6000" if r: "rate = 48000"
  proof -
    have "window_samples rate 125 = 6000" using r window_samples_48000 by simp
    then show ?thesis using f(5) by (simp add: float_to_uint64_def)
  qed
  have second: "\<exists>st'. process_bank (st\<lparr>bypass := bp\<rparr>) data n = Inr (st', 1)
                   \<and> samplesCount st' = 0 \<and> temporal_sum st' 0 = 0"
    if r: "rate = 48000" and bp: "bp \<noteq> 1" and n: "(n + 1) div 2 = 6000"
      and len: "n \<le> int (length data)" for data n bp
  proof -
    let ?st = "st\<lparr>bypass := bp\<rparr>"
    have nmax: "n < INT_MAX" using n by (simp add: INT_MAX_def)
    have "\<exists>st'. mono_loop data n 0 (?st, 0) = Inr (st', Suc 0)
           \<and> samplesCount st' = 0 \<and> temporal_sum st' 0 = 0
           \<and> maxNumberOfSamples st' = maxNumberOfSamples ?st
           \<and> (\<forall>k. num_sections (bands st' k) = num_sections (bands ?st k))"
      using f T6 [OF r] n len nmax
      by (intro mono_loop_boundary [where m = 5999])
         (simp_all add: sections_fit_def INT_MAX_def)
    then obtain st' where l: "mono_loop data n 0 (?st, 0) = Inr (st', Suc 0)"
        and z: "samplesCount st' = 0" "temporal_sum st' 0 = 0"
      by blast
    have "process_bank ?st data n = Inr (st', 1)"
      using bp f(2) l by (simp add: process_bank_def)
    then show ?thesis using z by blast
  qed
  show ?thesis
    using f(4) T exact T6 second by auto
qed

text \<open>C8, for the zero block, order 2 and a buffer of 12000 values.\<close>

theorem integration_threshold_witness:
  "\<exists>st st'. third_octave_filter_alloc None (Some zero_block) 48000 2 = Inr (Some st)
     \<and> maxNumberOfSamples st = 6000
     \<and> int (maxNumberOfSamples st) = \<lfloor>float32 (float32 (48000 / 1000) * 125)\<rfloor>
     \<and> process_bank (st\<lparr>bypass := 0\<rparr>) (replicate 12000 1) 12000 = Inr (st', 1)
     \<and> samplesCount st' = 0 \<and> temporal_sum st' 0 = 0"
proof -
  obtain st where a: "third_octave_filter_alloc None (Some zero_block) 48000 2 = Inr (Some st)"
    using alloc_zero_block by blast
  have r: "(0::real) \<le> 48000" by simp
  from integration_threshold [OF a r]
  have T: "maxNumberOfSamples st = 6000"
    and F: "int (maxNumberOfSamples st) = \<lfloor>float32 (float32 (48000 / 1000) * 125)\<rfloor>"
    and run: "\<forall>data n bp. bp \<noteq> 1 \<and> (n + 1) div 2 = 6000 \<and> n \<le> int (length data) \<longrightarrow>
                (\<exists>st'. process_bank (st\<lparr>bypass := bp\<rparr>) data n = Inr (st', 1)
                   \<and> samplesCount st' = 0 \<and> temporal_sum st' 0 = 0)"
    by simp_all
  have "\<exists>st'. process_bank (st\<lparr>bypass := 0\<rparr>) (replicate 12000 1) 12000 = Inr (st', 1)
                   \<and> samplesCount st' = 0 \<and> temporal_sum st' 0 = 0"
    using run [rule_format, of 0 12000 "replicate 12000 1"] by simp
  then show ?thesis using a T F by blast
qed

text \<open>
  C9. With the bypass flag enabled (\<open>bypass = 1\<close>), for every bank state, buffer and
  length, \<open>third_octave_filter_process\<close> returns with the bank and the buffer
  unchanged, and no level reduction runs.
\<close>

theorem bypass_changes_nothing:
  "bypass st = 1 \<Longrightarrow>
     third_octave_filter_process (Some st) data buffer_size = Inr (Some st, data)
     \<and> process_bank st data buffer_size = Inr (st, 0)"
  by (simp add: third_octave_filter_process_def process_bank_def)

text \<open>C9, for a bank with five samples counted and a buffer of three values.\<close>

theorem bypass_changes_nothing_witness:
  "third_octave_filter_process (Some (zero_block\<lparr>bypass := 1, samplesCount := 5\<rparr>)) [1, 2, 3] 3
     = Inr (Some (zero_block\<lparr>bypass := 1, samplesCount := 5\<rparr>), [1, 2, 3])"
  using bypass_changes_nothing [of "zero_block\<lparr>bypass := 1, samplesCount := 5\<rparr>" "[1, 2, 3]" 3]
  by simp

end
